theory Spec2Isabelle
  imports Complex_Main "HOL-Library.Sublist"
begin

section \<open>Behaviour model: per-player run state (src/players/behaviorEngine.js)\<close>

text \<open>
  JavaScript numbers are modelled as mathematical numbers: counters and the signed streak as
  integers, probabilities, fatigue and delays as reals. The values that a caller hands to the
  decision functions (the accuracy and the consistency of a profile, its category accuracies,
  the difficulty of a question) are JavaScript values, see \<open>jsvalue\<close> below.
\<close>

record PlayerState =
  questionsAnswered :: nat
  correctAnswers :: nat
  currentStreak :: int
  isHot :: bool
  isCold :: bool
  lastAnswerCorrect :: "bool option"
  fatigue :: real

text \<open>The constructor of \<open>PlayerState\<close>; the back reference to the profile is not kept.\<close>

definition new_PlayerState :: PlayerState where
  "new_PlayerState =
     \<lparr>questionsAnswered = 0, correctAnswers = 0, currentStreak = 0, isHot = False,
      isCold = False, lastAnswerCorrect = None, fatigue = 0\<rparr>"

definition recordAnswer :: "bool \<Rightarrow> PlayerState \<Rightarrow> PlayerState" where
  "recordAnswer wasCorrect s =
     (let s1 = s\<lparr>questionsAnswered := questionsAnswered s + 1\<rparr>;
          s2 = (if wasCorrect
                then s1\<lparr>correctAnswers := correctAnswers s1 + 1,
                        currentStreak := max 0 (currentStreak s1) + 1\<rparr>
                else s1\<lparr>currentStreak := min 0 (currentStreak s1) - 1\<rparr>);
          s3 = s2\<lparr>lastAnswerCorrect := Some wasCorrect, fatigue := fatigue s2 + 0.02\<rparr>
      in s3\<lparr>isHot := (currentStreak s3 \<ge> 3), isCold := (currentStreak s3 \<le> - 3)\<rparr>)"

definition getAccuracyModifier :: "PlayerState \<Rightarrow> real" where
  "getAccuracyModifier s =
     (let m0 = 0;
          m1 = (if isHot s then m0 + 0.1 else m0);
          m2 = (if isCold s then m1 - 0.1 else m1)
      in m2 - fatigue s * 0.5)"

definition reset :: "PlayerState \<Rightarrow> PlayerState" where
  "reset s =
     s\<lparr>questionsAnswered := 0, correctAnswers := 0, currentStreak := 0, isHot := False,
       isCold := False, lastAnswerCorrect := None, fatigue := 0\<rparr>"

text \<open>A sequence of \<open>recordAnswer\<close> calls, first answer first.\<close>

fun recordAnswers :: "bool list \<Rightarrow> PlayerState \<Rightarrow> PlayerState" where
  "recordAnswers [] s = s"
| "recordAnswers (w # ws) s = recordAnswers ws (recordAnswer w s)"


section \<open>JavaScript values\<close>

text \<open>
  The values that the arithmetic of the decision functions can meet: a finite number, the
  number \<open>NaN\<close> (what \<open>parseFloat\<close> returns for a cell that is not numeric), an object (a
  function or a plain object, such as the members that every object inherits from
  \<open>Object.prototype\<close>), and the text that \<open>+\<close> produces when one operand is an object: the
  source text or \<open>[object Object]\<close> followed by the other operand, which is never a numeric
  literal.
\<close>

datatype jsvalue = Number real | NaN | ObjectValue | TextValue

text \<open>\<open>ToNumber\<close>: an object and a non-numeric text convert to \<open>NaN\<close>.\<close>

fun js_toNumber :: "jsvalue \<Rightarrow> real option" where
  "js_toNumber (Number x) = Some x"
| "js_toNumber NaN = None"
| "js_toNumber ObjectValue = None"
| "js_toNumber TextValue = None"

definition js_arith :: "(real \<Rightarrow> real \<Rightarrow> real) \<Rightarrow> jsvalue \<Rightarrow> jsvalue \<Rightarrow> jsvalue" where
  "js_arith f a b =
     (case (js_toNumber a, js_toNumber b) of
        (Some x, Some y) \<Rightarrow> Number (f x y)
      | _ \<Rightarrow> NaN)"

text \<open>
  The operator \<open>+\<close> concatenates as soon as one operand is an object or a text; \<open>-\<close> and \<open>*\<close>
  convert both operands to numbers; \<open>Math.max\<close> and \<open>Math.min\<close> return \<open>NaN\<close> as soon as one
  argument converts to \<open>NaN\<close>.
\<close>

fun js_isText :: "jsvalue \<Rightarrow> bool" where
  "js_isText ObjectValue = True"
| "js_isText TextValue = True"
| "js_isText (Number x) = False"
| "js_isText NaN = False"

definition js_add :: "jsvalue \<Rightarrow> jsvalue \<Rightarrow> jsvalue" where
  "js_add a b = (if js_isText a \<or> js_isText b then TextValue else js_arith (+) a b)"

definition js_sub :: "jsvalue \<Rightarrow> jsvalue \<Rightarrow> jsvalue" where
  "js_sub a b = js_arith (-) a b"

definition js_mul :: "jsvalue \<Rightarrow> jsvalue \<Rightarrow> jsvalue" where
  "js_mul a b = js_arith (*) a b"

definition js_max :: "jsvalue \<Rightarrow> jsvalue \<Rightarrow> jsvalue" where
  "js_max a b = js_arith max a b"

definition js_min :: "jsvalue \<Rightarrow> jsvalue \<Rightarrow> jsvalue" where
  "js_min a b = js_arith min a b"

text \<open>Truthiness, and the comparison \<open>a < b\<close>, which is false when an operand is \<open>NaN\<close>.\<close>

fun js_truthy :: "jsvalue \<Rightarrow> bool" where
  "js_truthy (Number x) = (x \<noteq> 0)"
| "js_truthy NaN = False"
| "js_truthy ObjectValue = True"
| "js_truthy TextValue = True"

definition js_less :: "jsvalue \<Rightarrow> jsvalue \<Rightarrow> bool" where
  "js_less a b =
     (case (js_toNumber a, js_toNumber b) of
        (Some x, Some y) \<Rightarrow> x < y
      | _ \<Rightarrow> False)"

text \<open>
  Reading \<open>obj[name]\<close> on a plain object: an own property first, then the members inherited
  from \<open>Object.prototype\<close>, which are functions (\<open>__proto__\<close> is the prototype object
  itself), else \<open>undefined\<close> (\<open>None\<close>).
\<close>

definition object_prototype_names :: "string list" where
  "object_prototype_names =
     [''constructor'', ''hasOwnProperty'', ''isPrototypeOf'', ''propertyIsEnumerable'',
      ''toLocaleString'', ''toString'', ''valueOf'', ''__proto__'', ''__defineGetter__'',
      ''__defineSetter__'', ''__lookupGetter__'', ''__lookupSetter__'']"

definition js_get :: "(string \<rightharpoonup> jsvalue) \<Rightarrow> string \<Rightarrow> jsvalue option" where
  "js_get obj name =
     (case obj name of
        Some v \<Rightarrow> Some v
      | None \<Rightarrow> if name \<in> set object_prototype_names then Some ObjectValue else None)"


section \<open>Timing utilities (src/utils/timing.js)\<close>

text \<open>
  Every call of \<open>Math.random()\<close> is an explicit argument of the model, a real number that the
  runtime draws from the interval from 0 (included) to 1 (excluded).
\<close>

definition randomDelay :: "real \<Rightarrow> real \<Rightarrow> real \<Rightarrow> real" where
  "randomDelay lo hi u = of_int \<lfloor>u * (hi - lo + 1)\<rfloor> + lo"

record reactionTime =
  rt_min :: real
  rt_max :: real
  rt_average :: real

text \<open>
  The fields of a profile that the core reads. \<open>knowledgeAreas\<close>, \<open>lateJoinChance\<close> and
  \<open>noShowChance\<close> may be absent (\<open>None\<close>).
\<close>

record profile =
  profile_id :: string
  accuracy :: jsvalue
  knowledgeAreas :: "(string \<rightharpoonup> jsvalue) option"
  reactionTime :: reactionTime
  personality :: string
  consistency :: jsvalue
  lateJoinChance :: "real option"
  noShowChance :: "real option"

definition calculateAnswerDelay :: "profile \<Rightarrow> real \<Rightarrow> real \<Rightarrow> real \<Rightarrow> real \<Rightarrow> real" where
  "calculateAnswerDelay p questionDifficulty uJitter uDifficulty uPersonality =
     (let lo = rt_min (reactionTime p); hi = rt_max (reactionTime p);
          d0 = rt_average (reactionTime p);
          variance = (hi - lo) * 0.3;
          d1 = d0 + (uJitter - 0.5) * variance;
          d2 = d1 + questionDifficulty * randomDelay 500 2000 uDifficulty;
          d3 = (if personality p = ''fast'' then d2 * 0.7
                else if personality p = ''cautious'' then d2 * 1.3
                else if personality p = ''random'' then d2 * (0.5 + uPersonality)
                else d2)
      in max lo (min hi (of_int \<lfloor>d3\<rfloor>)))"

record joinTiming =
  shouldJoin :: bool
  delay :: real
  reason :: string

text \<open>
  \<open>uNoShow\<close> is the draw of the no-show check, \<open>uLate\<close> the draw of the late-join check and
  \<open>uDelay\<close> the draw inside the one \<open>randomDelay\<close> call that is reached.
\<close>

definition calculateJoinTiming :: "profile \<Rightarrow> real \<Rightarrow> real \<Rightarrow> real \<Rightarrow> joinTiming" where
  "calculateJoinTiming p uNoShow uLate uDelay =
     (let lateJoinChance' = (case lateJoinChance p of None \<Rightarrow> 0.15 | Some c \<Rightarrow> c);
          noShowChance' = (case noShowChance p of None \<Rightarrow> 0.05 | Some c \<Rightarrow> c)
      in if uNoShow < noShowChance'
         then \<lparr>shouldJoin = False, delay = 0, reason = ''no-show''\<rparr>
         else if uLate < lateJoinChance'
         then \<lparr>shouldJoin = True, delay = randomDelay 30000 120000 uDelay, reason = ''late''\<rparr>
         else \<lparr>shouldJoin = True, delay = randomDelay 1000 10000 uDelay, reason = ''on-time''\<rparr>)"

section \<open>Behaviour engine: decisions (src/players/behaviorEngine.js)\<close>

type_synonym engine = "string \<rightharpoonup> PlayerState"

definition getPlayerState :: "engine \<Rightarrow> profile \<Rightarrow> PlayerState \<times> engine" where
  "getPlayerState eng p =
     (case eng (profile_id p) of
        None \<Rightarrow> (new_PlayerState, eng(profile_id p \<mapsto> new_PlayerState))
      | Some s \<Rightarrow> (s, eng))"

text \<open>The options of a decision; an absent member (\<open>undefined\<close>) is \<open>None\<close>.\<close>

record decisionOptions =
  category :: "string option"
  difficulty :: "jsvalue option"

text \<open>
  The value of the local variable \<open>accuracy\<close> of \<open>shouldAnswerCorrectly\<close> when the dice are
  rolled. The category accuracy \<open>profile.knowledgeAreas[category]\<close> is used when it is truthy;
  the lookup also finds the members that \<open>knowledgeAreas\<close> inherits. The state modifier and
  the jitter draw are numbers.
\<close>

definition shouldAnswerCorrectly_accuracy ::
  "profile \<Rightarrow> PlayerState \<Rightarrow> decisionOptions \<Rightarrow> real \<Rightarrow> jsvalue" where
  "shouldAnswerCorrectly_accuracy p st opts uJitter =
     (let category' = (case category opts of None \<Rightarrow> ''general'' | Some c \<Rightarrow> c);
          difficulty' = (case difficulty opts of None \<Rightarrow> Number 0.5 | Some d \<Rightarrow> d);
          a0 = accuracy p;
          a1 = (case knowledgeAreas p of
                  None \<Rightarrow> a0
                | Some areas \<Rightarrow>
                    (case js_get areas category' of
                       None \<Rightarrow> a0
                     | Some k \<Rightarrow> if js_truthy k then k else a0));
          a2 = js_add a1 (Number (getAccuracyModifier st));
          a3 = js_sub a2 (js_mul difficulty' (Number 0.2));
          variance = js_mul (js_sub (Number 1) (consistency p)) (Number 0.2);
          a4 = js_add a3 (js_mul (Number (uJitter - 0.5)) variance)
      in js_max (Number 0.1) (js_min (Number 0.95) a4))"

definition shouldAnswerCorrectly ::
  "engine \<Rightarrow> profile \<Rightarrow> decisionOptions \<Rightarrow> real \<Rightarrow> real \<Rightarrow> bool \<times> engine" where
  "shouldAnswerCorrectly eng p opts uJitter roll =
     (case getPlayerState eng p of
        (st, eng') \<Rightarrow>
          (js_less (Number roll) (shouldAnswerCorrectly_accuracy p st opts uJitter), eng'))"

text \<open>
  The loop of \<open>weightedRandom\<close> from index \<open>i\<close> on: \<open>None\<close> when it runs off the end of the
  weights, in which case the function returns \<open>weights.length - 1\<close>.
\<close>

fun weightedRandom_loop :: "real list \<Rightarrow> int \<Rightarrow> real \<Rightarrow> int option" where
  "weightedRandom_loop [] i r = None"
| "weightedRandom_loop (w # ws) i r =
     (if r - w \<le> 0 then Some i else weightedRandom_loop ws (i + 1) (r - w))"

definition weightedRandom :: "real list \<Rightarrow> real \<Rightarrow> int" where
  "weightedRandom weights u =
     (let total = foldl (+) 0 weights
      in case weightedRandom_loop weights 0 (u * total) of
           Some i \<Rightarrow> i
         | None \<Rightarrow> int (length weights) - 1)"

text \<open>Reading a JavaScript array at a number: \<open>None\<close> is \<open>undefined\<close>.\<close>

definition js_index :: "'a list \<Rightarrow> int \<Rightarrow> 'a option" where
  "js_index xs k = (if 0 \<le> k \<and> k < int (length xs) then Some (xs ! nat k) else None)"

record decision =
  index :: "int option"
  decision_delay :: jsvalue
  decision_reason :: string
  expectedCorrect :: bool

record selectDraws =
  uJitter :: real
  uRoll :: real
  uDelayJitter :: real
  uDelayDifficulty :: real
  uDelayPersonality :: real
  uPick :: real

text \<open>
  The delay of a decision: \<open>calculateAnswerDelay(profile, decisionOptions.difficulty || 0.5)\<close>.
  A difficulty that is truthy and not a number makes the product in \<open>calculateAnswerDelay\<close>,
  and with it the delay, \<open>NaN\<close>.
\<close>

definition selectAnswer_delay :: "profile \<Rightarrow> decisionOptions \<Rightarrow> selectDraws \<Rightarrow> jsvalue" where
  "selectAnswer_delay p opts dr =
     (case (case difficulty opts of
              None \<Rightarrow> Number 0.5
            | Some x \<Rightarrow> if js_truthy x then x else Number 0.5) of
        Number q \<Rightarrow>
          Number (calculateAnswerDelay p q (uDelayJitter dr) (uDelayDifficulty dr)
                    (uDelayPersonality dr))
      | _ \<Rightarrow> NaN)"

definition option_weights :: "'a list \<Rightarrow> real list" where
  "option_weights options = map (\<lambda>i. max 0.1 (1 - real i * 0.2)) [0..<length options]"

definition selectAnswer ::
  "engine \<Rightarrow> profile \<Rightarrow> 'a list \<Rightarrow> int option \<Rightarrow> decisionOptions \<Rightarrow> selectDraws
     \<Rightarrow> decision \<times> engine" where
  "selectAnswer eng p options correctIndex opts dr =
     (case shouldAnswerCorrectly eng p opts (uJitter dr) (uRoll dr) of
        (shouldBeCorrect, eng1) \<Rightarrow>
          (let d = selectAnswer_delay p opts dr;
               (selectedIndex, why) =
                 (case correctIndex of
                    Some c \<Rightarrow>
                      if shouldBeCorrect then (Some c, ''correct-known'')
                      else
                        (let wrongIndices = filter (\<lambda>i. i \<noteq> c) (map int [0..<length options])
                         in (js_index wrongIndices \<lfloor>uPick dr * real (length wrongIndices)\<rfloor>,
                             ''intentional-wrong''))
                  | None \<Rightarrow>
                      if shouldBeCorrect
                      then (Some (weightedRandom (option_weights options) (uPick dr)),
                            ''guess-biased'')
                      else (Some \<lfloor>uPick dr * real (length options)\<rfloor>, ''guess-random''))
           in (\<lparr>index = selectedIndex, decision_delay = d, decision_reason = why,
                expectedCorrect = shouldBeCorrect\<rparr>,
               snd (getPlayerState eng1 p))))"

definition engine_recordAnswer :: "engine \<Rightarrow> profile \<Rightarrow> bool \<Rightarrow> engine" where
  "engine_recordAnswer eng p wasCorrect =
     (case getPlayerState eng p of
        (st, eng') \<Rightarrow> eng'(profile_id p \<mapsto> recordAnswer wasCorrect st))"

definition resetPlayer :: "engine \<Rightarrow> profile \<Rightarrow> engine" where
  "resetPlayer eng p =
     (case getPlayerState eng p of (st, eng') \<Rightarrow> eng'(profile_id p \<mapsto> reset st))"


text \<open>A profile with the defaults of the schema, and a set of draws, for concrete runs.\<close>

definition example_profile :: "real option \<Rightarrow> real option \<Rightarrow> profile" where
  "example_profile late noShow =
     \<lparr>profile_id = ''p1'', accuracy = Number 0.7,
      knowledgeAreas = Some [''general'' \<mapsto> Number 0.7, ''sports'' \<mapsto> Number 0.75,
                             ''hockey'' \<mapsto> Number 0.8, ''football'' \<mapsto> Number 0.75],
      reactionTime = \<lparr>rt_min = 2000, rt_max = 10000, rt_average = 5000\<rparr>,
      personality = ''normal'', consistency = Number 0.8,
      lateJoinChance = late, noShowChance = noShow\<rparr>"

definition example_draws :: "real \<Rightarrow> selectDraws" where
  "example_draws pick =
     \<lparr>uJitter = 1/2, uRoll = 99/100, uDelayJitter = 1/2, uDelayDifficulty = 1/2,
      uDelayPersonality = 1/2, uPick = pick\<rparr>"


section \<open>Phase detector (src/crowdlive/gameState.js)\<close>

datatype GameState =
  REGISTRATION | WAITING | COUNTDOWN | QUESTION | ANSWER_REVEAL | RANKING
  | BETWEEN_QUESTIONS | GAME_ENDED | ERROR | UNKNOWN

text \<open>
  What the browser driver answers to the four reads of one \<open>detectState\<close> call. \<open>None\<close> is a
  read that throws. \<open>pageText\<close> is the value of the \<open>page.evaluate\<close> call, the body text
  already in lower case; the two button counts are the lengths of the two element lists.
\<close>

record snapshot =
  pageText :: "string option"
  letterButtons :: "nat option"
  gripButtons :: "nat option"
  registrationForm :: "bool option"

record stateManager =
  currentState :: GameState
  previousState :: "GameState option"
  sm_questionNumber :: nat

definition new_GameStateManager :: stateManager where
  "new_GameStateManager =
     \<lparr>currentState = UNKNOWN, previousState = None, sm_questionNumber = 0\<rparr>"

text \<open>\<open>String.prototype.includes\<close>: the needle occurs as a contiguous part of the text.\<close>

fun js_includes :: "string \<Rightarrow> string \<Rightarrow> bool" where
  "js_includes [] needle = (needle = [])"
| "js_includes (c # cs) needle = (prefix needle (c # cs) \<or> js_includes cs needle)"

definition is_digit :: "char \<Rightarrow> bool" where
  "is_digit c = (c \<in> set ''0123456789'')"

definition digit_value :: "char \<Rightarrow> nat" where
  "digit_value c = of_char c - 48"

text \<open>\<open>parseInt\<close> on a string of decimal digits.\<close>

definition parseInt :: "string \<Rightarrow> nat" where
  "parseInt ds = foldl (\<lambda>n c. 10 * n + digit_value c) 0 ds"

text \<open>
  The regular expression \<open>(\d+):(\d{2})\<close> at the start of a text: the longest run of digits,
  a colon, two digits. A shorter run of digits is followed by a digit, never by the colon.
\<close>

definition timer_match_here :: "string \<Rightarrow> (string \<times> string) option" where
  "timer_match_here s =
     (let ds = takeWhile is_digit s
      in if ds = [] then None
         else (case dropWhile is_digit s of
                 c # d1 # d2 # _ \<Rightarrow>
                   if c = CHR '':'' \<and> is_digit d1 \<and> is_digit d2 then Some (ds, [d1, d2])
                   else None
               | _ \<Rightarrow> None))"

text \<open>\<open>String.prototype.match\<close> without the global flag: the leftmost match.\<close>

fun timer_match :: "string \<Rightarrow> (string \<times> string) option" where
  "timer_match [] = None"
| "timer_match (c # cs) =
     (case timer_match_here (c # cs) of Some m \<Rightarrow> Some m | None \<Rightarrow> timer_match cs)"

text \<open>The local variables of \<open>detectState\<close>.\<close>

definition answerButtonCount :: "snapshot \<Rightarrow> nat" where
  "answerButtonCount snap =
     (case letterButtons snap of
        None \<Rightarrow> 0
      | Some a \<Rightarrow> (case gripButtons snap of None \<Rightarrow> 0 | Some b \<Rightarrow> a + b))"

definition timerSeconds :: "string \<Rightarrow> int" where
  "timerSeconds t =
     (case timer_match t of
        None \<Rightarrow> - 1
      | Some (m, s) \<Rightarrow> int (parseInt m * 60 + parseInt s))"

definition setState :: "GameState \<Rightarrow> stateManager \<Rightarrow> GameState \<times> stateManager" where
  "setState newState sm =
     (if newState \<noteq> currentState sm
      then (let sm1 = sm\<lparr>previousState := Some (currentState sm), currentState := newState\<rparr>;
                sm2 = (if newState = QUESTION \<and> previousState sm1 \<noteq> Some QUESTION
                       then sm1\<lparr>sm_questionNumber := sm_questionNumber sm1 + 1\<rparr> else sm1)
            in (currentState sm2, sm2))
      else (currentState sm, sm))"

text \<open>
  No observer is registered anywhere in the repository, so the callbacks of \<open>setState\<close> are
  left out. A committed state is a non-empty string, so \<open>this.currentState || WAITING\<close> is the
  committed state.
\<close>

definition detectState :: "snapshot \<Rightarrow> stateManager \<Rightarrow> GameState \<times> stateManager" where
  "detectState snap sm =
     (case pageText snap of
        None \<Rightarrow> (currentState sm, sm)
      | Some t \<Rightarrow>
          if js_includes t ''welcome back'' \<or> js_includes t ''continue playing''
          then setState REGISTRATION sm
          else (case registrationForm snap of
             None \<Rightarrow> (currentState sm, sm)
           | Some hasRegistrationForm \<Rightarrow>
               if hasRegistrationForm then setState REGISTRATION sm
               else if js_includes t ''you finished'' \<or> js_includes t ''game over'' \<or>
                       js_includes t ''thank you for playing'' \<or> js_includes t ''final results''
               then setState GAME_ENDED sm
               else if answerButtonCount snap > 0 \<and> timerSeconds t > 0
               then setState QUESTION sm
               else if js_includes t ''your ranking''
               then setState RANKING sm
               else if timerSeconds t = 0 \<or> js_includes t ''time has run out''
               then setState ANSWER_REVEAL sm
               else if js_includes t ''will be activated shortly'' \<or> js_includes t ''waiting'' \<or>
                       js_includes t ''game will start'' \<or> js_includes t ''hang tight''
               then setState WAITING sm
               else if timer_match t \<noteq> None
               then setState BETWEEN_QUESTIONS sm
               else if js_includes t ''something went wrong'' \<or> js_includes t ''unable to join'' \<or>
                       js_includes t ''error occurred''
               then setState ERROR sm
               else if js_includes t ''sign out'' \<or> js_includes t ''my profile''
               then setState WAITING sm
               else (currentState sm, sm)))"

text \<open>The game-ended keyword set of \<open>detectState\<close>, as a predicate on the page text.\<close>

definition gameEndedText :: "string \<Rightarrow> bool" where
  "gameEndedText t =
     (js_includes t ''you finished'' \<or> js_includes t ''game over'' \<or>
      js_includes t ''thank you for playing'' \<or> js_includes t ''final results'')"

definition returningPlayerText :: "string \<Rightarrow> bool" where
  "returningPlayerText t = (js_includes t ''welcome back'' \<or> js_includes t ''continue playing'')"

definition example_snapshot :: "string \<Rightarrow> snapshot" where
  "example_snapshot t =
     \<lparr>pageText = Some t, letterButtons = Some 4, gripButtons = Some 0,
      registrationForm = Some False\<rparr>"


section \<open>Worker pool: registration and aggregation (src/orchestrator/playerPool.js)\<close>

text \<open>The partial result that a bot keeps and returns from its run.\<close>

record gameResults =
  gr_questionsAnswered :: nat
  gr_correctAnswers :: nat
  finalScore :: "real option"
  finalRank :: "real option"

text \<open>
  What the pool records for a player: the value \<open>bot.run\<close> returned, which is \<open>null\<close> or the
  bot's game results, or the object \<open>{ error: message }\<close> when the run threw.
\<close>

datatype runResult = NullResult | Results gameResults | ErrorResult string

text \<open>The test \<open>result && !result.error\<close>: an absent or empty \<open>error\<close> field is falsy.\<close>

fun countsAsCompleted :: "runResult \<Rightarrow> bool" where
  "countsAsCompleted NullResult = False"
| "countsAsCompleted (Results g) = True"
| "countsAsCompleted (ErrorResult msg) = (msg = [])"

text \<open>
  The three collections of the pool keep insertion order, as a \<open>Map\<close> and a \<open>Set\<close> do: \<open>bots\<close> and
  \<open>results\<close> are association lists, \<open>activeBots\<close> is a list without repetition.
\<close>

record pool =
  maxConcurrent :: nat
  headless :: bool
  bots :: "(string \<times> profile) list"
  activeBots :: "string list"
  results :: "(string \<times> runResult) list"
  pool_isRunning :: bool

text \<open>\<open>options.maxConcurrent || config.browser.maxConcurrent\<close>: zero is falsy.\<close>

definition new_PlayerPool :: "nat \<Rightarrow> nat option \<Rightarrow> bool \<Rightarrow> pool" where
  "new_PlayerPool config_maxConcurrent opt_maxConcurrent opt_headless =
     \<lparr>maxConcurrent =
        (case opt_maxConcurrent of
           None \<Rightarrow> config_maxConcurrent
         | Some m \<Rightarrow> if m \<noteq> 0 then m else config_maxConcurrent),
      headless = opt_headless, bots = [], activeBots = [], results = [],
      pool_isRunning = False\<rparr>"

definition map_has :: "('k \<times> 'v) list \<Rightarrow> 'k \<Rightarrow> bool" where
  "map_has m k = (map_of m k \<noteq> None)"

text \<open>\<open>Map.prototype.set\<close>: a present key keeps its place, a new key goes to the end.\<close>

fun map_set :: "('k \<times> 'v) list \<Rightarrow> 'k \<Rightarrow> 'v \<Rightarrow> ('k \<times> 'v) list" where
  "map_set [] k v = [(k, v)]"
| "map_set ((k', v') # m) k v = (if k' = k then (k, v) # m else (k', v') # map_set m k v)"

definition set_add :: "'a list \<Rightarrow> 'a \<Rightarrow> 'a list" where
  "set_add s x = (if x \<in> set s then s else s @ [x])"

definition set_delete :: "'a list \<Rightarrow> 'a \<Rightarrow> 'a list" where
  "set_delete s x = removeAll x s"

definition addPlayer :: "profile \<Rightarrow> pool \<Rightarrow> pool" where
  "addPlayer p pl =
     (if map_has (bots pl) (profile_id p) then pl
      else pl\<lparr>bots := map_set (bots pl) (profile_id p) p\<rparr>)"

definition addPlayers :: "profile list \<Rightarrow> pool \<Rightarrow> pool" where
  "addPlayers ps pl = foldl (\<lambda>acc p. addPlayer p acc) pl ps"

record poolResults =
  totalPlayers :: nat
  completed :: nat
  failed :: nat
  players :: "(string \<times> runResult) list"

definition getResults :: "pool \<Rightarrow> poolResults" where
  "getResults pl =
     foldl (\<lambda>acc (playerId, result).
              if countsAsCompleted result
              then acc\<lparr>completed := completed acc + 1,
                       players := map_set (players acc) playerId result\<rparr>
              else acc\<lparr>failed := failed acc + 1,
                       players := map_set (players acc) playerId result\<rparr>)
       \<lparr>totalPlayers = length (bots pl), completed = 0, failed = 0, players = []\<rparr>
       (results pl)"

text \<open>
  \<open>startBot\<close> in two halves, around its one \<open>await\<close>. The first half runs up to the call of
  \<open>bot.run\<close>: it throws for an unknown player, returns \<open>null\<close> at once (\<open>Inr False\<close>) for a
  player that is already active, and otherwise marks the player active (\<open>Inr True\<close>: the run
  has been started).
\<close>

definition startBot_begin :: "string \<Rightarrow> pool \<Rightarrow> (string + bool) \<times> pool" where
  "startBot_begin playerId pl =
     (if \<not> map_has (bots pl) playerId then (Inl (''Player not found: '' @ playerId), pl)
      else if playerId \<in> set (activeBots pl) then (Inr False, pl)
      else (Inr True, pl\<lparr>activeBots := set_add (activeBots pl) playerId\<rparr>))"

text \<open>
  The second half runs when the run has settled, with the value it returned (\<open>Inr\<close>) or the
  message of the error it threw (\<open>Inl\<close>): the outcome is recorded, the player leaves the active
  set, and \<open>startBot\<close> itself returns normally in both cases.
\<close>

definition startBot_settle :: "string \<Rightarrow> string + runResult \<Rightarrow> pool \<Rightarrow> runResult \<times> pool" where
  "startBot_settle playerId outcome pl =
     (case outcome of
        Inr r \<Rightarrow>
          (r, pl\<lparr>results := map_set (results pl) playerId r,
                 activeBots := set_delete (activeBots pl) playerId\<rparr>)
      | Inl msg \<Rightarrow>
          (ErrorResult msg,
           pl\<lparr>results := map_set (results pl) playerId (ErrorResult msg),
              activeBots := set_delete (activeBots pl) playerId\<rparr>))"


section \<open>Worker pool: admission (startAll of src/orchestrator/playerPool.js)\<close>

text \<open>
  \<open>startAll\<close> runs interleaved with the runs of the bots it has launched. JavaScript runs one
  piece of code at a time and switches only at an \<open>await\<close>, so the model has one state for
  the pool together with the frame of \<open>startAll\<close>, and one atomic step for each piece of code
  between two \<open>await\<close>s. The position of \<open>startAll\<close> is the \<open>await\<close> at which it is suspended:
  the poll \<open>sleep(500)\<close> of the inner loop, the stagger \<open>sleep(delay)\<close>, or the final
  \<open>Promise.all\<close>.
\<close>

datatype position = NotCalled | Polling | Stagger | Joining | Returned

record admission =
  adm_pool :: pool
  limit :: nat
  playerIds :: "string list"
  idx :: nat
  promises :: "string list"
  launched :: "string list"
  unsettled :: "string list"
  pos :: position


text \<open>
  The body of the loop from the call of \<open>startBot\<close> to \<open>i++\<close>. A \<open>startBot\<close> that throws or
  finds the player active settles at once and starts no run; the promise is pushed in
  every case. Past the end of the roster \<open>playerIds[i]\<close> is \<open>undefined\<close>, a player that is
  not found.
\<close>

definition launch :: "admission \<Rightarrow> admission" where
  "launch st =
     (if idx st < length (playerIds st)
      then
        (let playerId = playerIds st ! idx st;
             st1 = (case startBot_begin playerId (adm_pool st) of
                      (Inr True, pl) \<Rightarrow>
                        st\<lparr>adm_pool := pl, launched := launched st @ [playerId],
                           unsettled := unsettled st @ [playerId]\<rparr>
                    | (other, pl) \<Rightarrow> st)
         in st1\<lparr>promises := promises st1 @ [playerId], idx := idx st1 + 1\<rparr>)
      else st\<lparr>promises := promises st @ [''undefined''], idx := idx st + 1\<rparr>)"

text \<open>
  \<open>advance\<close> runs \<open>startAll\<close> up to its next \<open>await\<close>, from the test of the \<open>for\<close> loop
  (\<open>at_for\<close>) or from the test of the inner \<open>while\<close> loop. Only the first player is launched
  without a stagger sleep, so the function calls itself at most once.
\<close>

function advance :: "bool \<Rightarrow> admission \<Rightarrow> admission" where
  "advance at_for st =
     (if at_for \<and> \<not> (idx st < length (playerIds st) \<and> pool_isRunning (adm_pool st))
      then st\<lparr>pos := Joining\<rparr>
      else if length (activeBots (adm_pool st)) \<ge> limit st \<and> pool_isRunning (adm_pool st)
      then st\<lparr>pos := Polling\<rparr>
      else if \<not> pool_isRunning (adm_pool st)
      then st\<lparr>pos := Joining\<rparr>
      else if idx st > 0
      then st\<lparr>pos := Stagger\<rparr>
      else advance True (launch st))"
  by pat_completeness auto
termination
  by (relation "measure (\<lambda>(at_for, st). if idx st = 0 then 1 else 0)")
     (auto simp add: launch_def Let_def split: prod.splits sum.splits bool.splits)

declare advance.simps [simp del]

text \<open>
  The events. \<open>Call\<close> is the call of \<open>startAll\<close>, \<open>Resume\<close> the moment the promise it awaits
  resolves (a timer fires, or every pushed promise has settled), \<open>Settle\<close> the settling of a
  bot's run with the value it returned or the message it threw, which runs the second half
  of \<open>startBot\<close>. \<open>StopFlag\<close> and \<open>StopClear\<close> are the two effects of a \<open>stopAll\<close> on the pool,
  before and after its \<open>await\<close>. An event that is not enabled changes nothing.
\<close>

datatype event =
  Call | Resume | Settle string "string + runResult" | StopFlag | StopClear

fun step :: "event \<Rightarrow> admission \<Rightarrow> admission" where
  "step Call st =
     (if pos st = NotCalled
      then advance True
             (st\<lparr>adm_pool := (adm_pool st)\<lparr>pool_isRunning := True\<rparr>,
                 playerIds := map fst (bots (adm_pool st)), promises := [], idx := 0\<rparr>)
      else st)"
| "step Resume st =
     (case pos st of
        Polling \<Rightarrow> advance False st
      | Stagger \<Rightarrow> advance True (launch st)
      | Joining \<Rightarrow>
          if list_all (\<lambda>playerId. playerId \<notin> set (unsettled st)) (promises st)
          then st\<lparr>adm_pool := (adm_pool st)\<lparr>pool_isRunning := False\<rparr>, pos := Returned\<rparr>
          else st
      | other \<Rightarrow> st)"
| "step (Settle playerId outcome) st =
     (if playerId \<in> set (unsettled st)
      then st\<lparr>adm_pool := snd (startBot_settle playerId outcome (adm_pool st)),
              unsettled := removeAll playerId (unsettled st)\<rparr>
      else st)"
| "step StopFlag st = st\<lparr>adm_pool := (adm_pool st)\<lparr>pool_isRunning := False\<rparr>\<rparr>"
| "step StopClear st = st\<lparr>adm_pool := (adm_pool st)\<lparr>activeBots := []\<rparr>\<rparr>"













section \<open>Session coordinator (src/orchestrator/gameSession.js)\<close>

datatype sessionStatus = idle | initializing | running | completed_status | failed_status | stopped

text \<open>
  The session. \<open>gameUrl\<close> is \<open>None\<close> for \<open>null\<close> or \<open>undefined\<close>; together with the empty string
  these are the falsy URLs. Timestamps are numbers read from a clock that the caller passes.
\<close>

record session =
  gameUrl :: "string option"
  session_players :: "profile list"
  session_pool :: "pool option"
  status :: sessionStatus
  startTime :: "nat option"
  endTime :: "nat option"
  opt_maxConcurrent :: nat
  opt_headless :: bool

text \<open>
  \<open>cfg\<close> stands for \<open>config.browser.maxConcurrent\<close>, which the configuration module reads
  from the environment; \<open>options.maxConcurrent || cfg\<close> takes it when the option is absent or
  zero.
\<close>

definition new_GameSession ::
  "nat \<Rightarrow> string option \<Rightarrow> profile list \<Rightarrow> nat option \<Rightarrow> bool \<Rightarrow> session" where
  "new_GameSession cfg url ps maxC hl =
     \<lparr>gameUrl = url, session_players = ps, session_pool = None, status = idle,
      startTime = None, endTime = None,
      opt_maxConcurrent = (case maxC of None \<Rightarrow> cfg | Some m \<Rightarrow> if m \<noteq> 0 then m else cfg),
      opt_headless = hl\<rparr>"

definition setGameUrl :: "string option \<Rightarrow> session \<Rightarrow> session" where
  "setGameUrl url s = s\<lparr>gameUrl := url\<rparr>"

definition setPlayers :: "profile list \<Rightarrow> session \<Rightarrow> session" where
  "setPlayers ps s = s\<lparr>session_players := ps\<rparr>"

definition statusName :: "sessionStatus \<Rightarrow> string" where
  "statusName st =
     (case st of idle \<Rightarrow> ''idle'' | initializing \<Rightarrow> ''initializing'' | running \<Rightarrow> ''running''
      | completed_status \<Rightarrow> ''completed'' | failed_status \<Rightarrow> ''failed'' | stopped \<Rightarrow> ''stopped'')"

definition session_initialize :: "nat \<Rightarrow> session \<Rightarrow> (string + unit) \<times> session" where
  "session_initialize cfg s =
     (if status s \<noteq> idle
      then (Inl (''Cannot initialize session in '' @ statusName (status s) @ '' state''), s)
      else (Inr (),
            s\<lparr>status := initializing,
              session_pool :=
                Some (addPlayers (session_players s)
                        (new_PlayerPool cfg (Some (opt_maxConcurrent s))
                           (opt_headless s)))\<rparr>))"

definition url_falsy :: "string option \<Rightarrow> bool" where
  "url_falsy url = (case url of None \<Rightarrow> True | Some u \<Rightarrow> u = [])"

record sessionResults =
  sr_gameUrl :: "string option"
  sr_startTime :: "nat option"
  sr_endTime :: "nat option"
  sr_results :: poolResults

text \<open>
  \<open>start\<close>. The pool's \<open>startAll\<close> is awaited in the middle of it; its outcome is an argument
  here, the pool as \<open>startAll\<close> left it or the message of the error it threw. \<open>t0\<close> and \<open>t1\<close>
  are the clock readings at the start and at the end. The writers of results and the
  database service are outside the core, and their failures are swallowed.
\<close>

definition session_start ::
  "nat \<Rightarrow> nat \<Rightarrow> nat \<Rightarrow> (string + pool) \<Rightarrow> session
     \<Rightarrow> (string + sessionResults) \<times> session" where
  "session_start cfg t0 t1 startAll_outcome s =
     (case (if session_pool s = None then session_initialize cfg s else (Inr (), s)) of
        (Inl e, s1) \<Rightarrow> (Inl e, s1)
      | (Inr u, s1) \<Rightarrow>
          if length (session_players s1) = 0 then (Inl ''No players in session'', s1)
          else if url_falsy (gameUrl s1) then (Inl ''No game URL set'', s1)
          else
            (let s2 = s1\<lparr>status := running, startTime := Some t0\<rparr>
             in case startAll_outcome of
                  Inr pl \<Rightarrow>
                    (let s3 = s2\<lparr>session_pool := Some pl, endTime := Some t1,
                                 status := completed_status\<rparr>
                     in (Inr \<lparr>sr_gameUrl = gameUrl s3, sr_startTime = startTime s3,
                              sr_endTime = endTime s3, sr_results = getResults pl\<rparr>, s3))
                | Inl e \<Rightarrow> (Inl e, s2\<lparr>status := failed_status, endTime := Some t1\<rparr>)))"


section \<open>Agent (TriviaBot, second half of src/orchestrator/gameSession.js)\<close>

text \<open>
  The browser driver and the random number generator, as one bot meets them. The bot counts
  its interactions (\<open>clock\<close>); the driver says, for the interaction with a given number,
  whether the call throws (and with which message), what the page shows, and which value a
  call returns. \<open>patience_at\<close> is the number of polls that a timeout leaves to a wait that
  starts at that interaction: every poll sleeps half a second, so the number is finite.
\<close>

record driver =
  throws_at :: "nat \<Rightarrow> string option"
  snapshot_at :: "nat \<Rightarrow> snapshot"
  bool_at :: "nat \<Rightarrow> bool"
  verdict_at :: "nat \<Rightarrow> bool option"
  score_at :: "nat \<Rightarrow> real option"
  optionCount_at :: "nat \<Rightarrow> nat"
  draw_at :: "nat \<Rightarrow> real"
  patience_at :: "nat \<Rightarrow> nat"

text \<open>
  The fields of a bot. The four resources are \<open>True\<close> when the field holds an object and
  \<open>False\<close> when it is \<open>null\<close>. \<open>behaviorEngine\<close> is the singleton of the behaviour engine, as
  this bot reads and writes it. The functions below follow one bot through its own code; the
  handlers that \<open>setupErrorHandlers\<close> registers run between two of its steps, and the one
  for a page crash calls \<open>attemptRecovery\<close>, which is modelled for a call in any state.
\<close>

record bot =
  bot_profile :: profile
  bot_gameUrl :: string
  bot_maxRetries :: int
  bot_browser :: bool
  bot_context :: bool
  bot_page :: bool
  pageActions :: bool
  stateManager :: "stateManager option"
  isRunning :: bool
  questionNumber :: nat
  retryCount :: int
  lastError :: "string option"
  bot_gameResults :: gameResults
  behaviorEngine :: engine
  clock :: nat

text \<open>
  The constructor, with the options the caller gives: the URL (\<open>config.game.url\<close> when absent)
  and \<open>maxRetries\<close> (3 when absent).
\<close>

definition new_TriviaBot :: "profile \<Rightarrow> string \<Rightarrow> int option \<Rightarrow> engine \<Rightarrow> bot" where
  "new_TriviaBot p url maxR eng =
     \<lparr>bot_profile = p, bot_gameUrl = url,
      bot_maxRetries = (case maxR of None \<Rightarrow> 3 | Some m \<Rightarrow> m),
      bot_browser = False, bot_context = False, bot_page = False, pageActions = False,
      stateManager = None, isRunning = False, questionNumber = 0, retryCount = 0,
      lastError = None,
      bot_gameResults = \<lparr>gr_questionsAnswered = 0, gr_correctAnswers = 0, finalScore = None,
                          finalRank = None\<rparr>,
      behaviorEngine = eng, clock = 0\<rparr>"

definition tick :: "bot \<Rightarrow> bot" where
  "tick b = b\<lparr>clock := clock b + 1\<rparr>"

text \<open>The message of the \<open>TypeError\<close> for a method call on \<open>null\<close>, shortened.\<close>

definition null_TypeError :: string where
  "null_TypeError = ''Cannot read properties of null''"

text \<open>One awaited call of the browser library: it throws or it completes.\<close>

definition driver_call :: "driver \<Rightarrow> bot \<Rightarrow> (string + unit) \<times> bot" where
  "driver_call d b =
     (case throws_at d (clock b) of Some msg \<Rightarrow> (Inl msg, tick b) | None \<Rightarrow> (Inr (), tick b))"

text \<open>A method of \<open>this.pageActions\<close>: a \<open>TypeError\<close> when the field is \<open>null\<close>.\<close>

definition pageAction :: "driver \<Rightarrow> bot \<Rightarrow> (string + unit) \<times> bot" where
  "pageAction d b = (if \<not> pageActions b then (Inl null_TypeError, b) else driver_call d b)"

definition pageAction_bool :: "driver \<Rightarrow> bot \<Rightarrow> (string + bool) \<times> bot" where
  "pageAction_bool d b =
     (if \<not> pageActions b then (Inl null_TypeError, b)
      else (case throws_at d (clock b) of
              Some msg \<Rightarrow> (Inl msg, tick b)
            | None \<Rightarrow> (Inr (bool_at d (clock b)), tick b)))"

definition initialize :: "driver \<Rightarrow> bot \<Rightarrow> (string + unit) \<times> bot" where
  "initialize d b =
     (case driver_call d b of
        (Inl e, b1) \<Rightarrow> (Inl e, b1)
      | (Inr u1, b1) \<Rightarrow>
          (case driver_call d (b1\<lparr>bot_browser := True\<rparr>) of
             (Inl e, b2) \<Rightarrow> (Inl e, b2)
           | (Inr u2, b2) \<Rightarrow>
               (case driver_call d (b2\<lparr>bot_context := True\<rparr>) of
                  (Inl e, b3) \<Rightarrow> (Inl e, b3)
                | (Inr u3, b3) \<Rightarrow>
                    (Inr (),
                     b3\<lparr>bot_page := True, pageActions := True,
                        stateManager := Some new_GameStateManager,
                        behaviorEngine := resetPlayer (behaviorEngine b3) (bot_profile b3)\<rparr>))))"

definition cleanupSilent :: "bot \<Rightarrow> bot" where
  "cleanupSilent b =
     b\<lparr>bot_page := False, bot_context := False, bot_browser := False, pageActions := False,
       stateManager := None\<rparr>"

definition cleanup :: "bot \<Rightarrow> bot" where
  "cleanup b = b\<lparr>bot_page := False, bot_context := False, bot_browser := False\<rparr>"

definition attemptRecovery :: "driver \<Rightarrow> bot \<Rightarrow> bool \<times> bot" where
  "attemptRecovery d b =
     (if retryCount b \<ge> bot_maxRetries b then (False, b\<lparr>isRunning := False\<rparr>)
      else
        (let b1 = b\<lparr>retryCount := retryCount b + 1\<rparr>;
             b2 = cleanupSilent b1
         in case initialize d b2 of
              (Inl e, b3) \<Rightarrow> (False, b3)
            | (Inr u, b3) \<Rightarrow>
                if bot_gameUrl b3 \<noteq> []
                then (case pageAction d b3 of
                        (Inl e, b4) \<Rightarrow> (False, b4)
                      | (Inr u', b4) \<Rightarrow> (True, b4))
                else (True, b3)))"

definition recoveryErrors :: "string list" where
  "recoveryErrors =
     [''Target closed'', ''Target page, context or browser has been closed'',
      ''Execution context was destroyed'', ''Protocol error'', ''Connection closed'',
      ''Browser closed'', ''Page crashed'']"

definition needsRecovery :: "string \<Rightarrow> bool" where
  "needsRecovery message = list_ex (\<lambda>msg. js_includes message msg) recoveryErrors"

text \<open>
  \<open>withRetry\<close>. Every call in the source leaves \<open>maxRetries\<close> at its default 3. The loop is
  indexed by the number of attempts that remain after the current one, which is what
  \<open>attempt < maxRetries\<close> tests: attempts 1, 2 and 3 leave 2, 1 and 0. The last attempt
  rethrows its error.
\<close>

fun withRetry_loop ::
  "driver \<Rightarrow> (bot \<Rightarrow> (string + 'a) \<times> bot) \<Rightarrow> nat \<Rightarrow> bot \<Rightarrow> (string + 'a) \<times> bot" where
  "withRetry_loop d operation 0 b = operation b"
| "withRetry_loop d operation (Suc remaining) b =
     (case operation b of
        (Inr v, b1) \<Rightarrow> (Inr v, b1)
      | (Inl e, b1) \<Rightarrow>
          if needsRecovery e
          then (case attemptRecovery d b1 of
                  (recovered, b2) \<Rightarrow>
                    if \<not> recovered then (Inl e, b2)
                    else withRetry_loop d operation remaining b2)
          else withRetry_loop d operation remaining b1)"

definition withRetry ::
  "driver \<Rightarrow> (bot \<Rightarrow> (string + 'a) \<times> bot) \<Rightarrow> bot \<Rightarrow> (string + 'a) \<times> bot" where
  "withRetry d operation b = withRetry_loop d operation 2 b"

text \<open>\<open>this.stateManager.detectState()\<close>, on what the page shows at this interaction.\<close>

definition bot_detectState :: "driver \<Rightarrow> bot \<Rightarrow> (string + GameState) \<times> bot" where
  "bot_detectState d b =
     (case stateManager b of
        None \<Rightarrow> (Inl null_TypeError, b)
      | Some sm \<Rightarrow>
          (case detectState (snapshot_at d (clock b)) sm of
             (st, sm') \<Rightarrow> (Inr st, tick (b\<lparr>stateManager := Some sm'\<rparr>))))"

text \<open>
  \<open>joinGame\<close>. The three draws of \<open>calculateJoinTiming\<close> are the next three interactions. The
  URL only reaches the driver; sleeping changes nothing in the bot.
\<close>

definition joinGame :: "driver \<Rightarrow> string option \<Rightarrow> bot \<Rightarrow> (string + bool) \<times> bot" where
  "joinGame d url b =
     (let joinTiming = calculateJoinTiming (bot_profile b) (draw_at d (clock b))
                         (draw_at d (clock b + 1)) (draw_at d (clock b + 2));
          b0 = b\<lparr>clock := clock b + 3\<rparr>
      in if \<not> shouldJoin joinTiming then (Inr False, b0)
         else
           (case withRetry d (pageAction d) b0 of
              (Inl e, b1) \<Rightarrow> (Inl e, b1)
            | (Inr u, b1) \<Rightarrow>
                (case bot_detectState d b1 of
                   (Inl e, b2) \<Rightarrow> (Inl e, b2)
                 | (Inr state, b2) \<Rightarrow>
                     if state = REGISTRATION
                     then
                       (case withRetry d (pageAction d) b2 of
                          (Inl e, b3) \<Rightarrow> (Inl e, b3)
                        | (Inr u', b3) \<Rightarrow>
                            (case withRetry d (pageAction_bool d) b3 of
                               (Inl e, b4) \<Rightarrow> (Inl e, b4)
                             | (Inr joined, b4) \<Rightarrow>
                                 if \<not> joined then (Inr False, b4)
                                 else (Inr True, b4\<lparr>retryCount := 0\<rparr>)))
                     else (Inr True, b2\<lparr>retryCount := 0\<rparr>))))"

text \<open>
  \<open>waitForState\<close>: \<open>polls\<close> is the number of times that the test of elapsed time against the
  timeout still holds.
\<close>

fun waitForState_loop ::
  "driver \<Rightarrow> GameState list \<Rightarrow> nat \<Rightarrow> bot \<Rightarrow> (string + GameState) \<times> bot" where
  "waitForState_loop d states 0 b = (Inl ''Timeout waiting for state'', b)"
| "waitForState_loop d states (Suc polls) b =
     (case bot_detectState d b of
        (Inl e, b1) \<Rightarrow> (Inl e, b1)
      | (Inr current, b1) \<Rightarrow>
          if current \<in> set states then (Inr current, b1)
          else if current = GAME_ENDED then (Inr current, b1)
          else waitForState_loop d states polls b1)"

definition waitForState :: "driver \<Rightarrow> GameState list \<Rightarrow> bot \<Rightarrow> (string + GameState) \<times> bot" where
  "waitForState d states b =
     (case stateManager b of
        None \<Rightarrow> (Inl null_TypeError, b)
      | Some sm \<Rightarrow> waitForState_loop d states (patience_at d (clock b)) b)"

definition waitForGameStart :: "driver \<Rightarrow> bot \<Rightarrow> bool \<times> bot" where
  "waitForGameStart d b =
     (case waitForState d [COUNTDOWN, QUESTION, ANSWER_REVEAL, BETWEEN_QUESTIONS, GAME_ENDED] b of
        (Inl e, b1) \<Rightarrow> (False, b1)
      | (Inr state, b1) \<Rightarrow>
          if state = GAME_ENDED then (False, b1)
          else
            (let b2 = (if state = COUNTDOWN
                       then snd (waitForState d [QUESTION, GAME_ENDED] b1) else b1)
             in case bot_detectState d b2 of
                  (Inl e, b3) \<Rightarrow> (False, b3)
                | (Inr currentState', b3) \<Rightarrow>
                    if currentState' = GAME_ENDED then (False, b3) else (True, b3)))"


text \<open>Methods of \<open>this.pageActions\<close> with a result: the options found, the verdict, the score.\<close>

definition getAnswerOptions :: "driver \<Rightarrow> bot \<Rightarrow> (string + nat) \<times> bot" where
  "getAnswerOptions d b =
     (if \<not> pageActions b then (Inl null_TypeError, b)
      else (case throws_at d (clock b) of
              Some msg \<Rightarrow> (Inl msg, tick b)
            | None \<Rightarrow> (Inr (optionCount_at d (clock b)), tick b)))"

definition checkAnswerResult :: "driver \<Rightarrow> bot \<Rightarrow> (string + bool option) \<times> bot" where
  "checkAnswerResult d b =
     (if \<not> pageActions b then (Inl null_TypeError, b)
      else (case throws_at d (clock b) of
              Some msg \<Rightarrow> (Inl msg, tick b)
            | None \<Rightarrow> (Inr (verdict_at d (clock b)), tick b)))"

definition getCurrentScore :: "driver \<Rightarrow> bot \<Rightarrow> (string + real option) \<times> bot" where
  "getCurrentScore d b =
     (if \<not> pageActions b then (Inl null_TypeError, b)
      else (case throws_at d (clock b) of
              Some msg \<Rightarrow> (Inl msg, tick b)
            | None \<Rightarrow> (Inr (score_at d (clock b)), tick b)))"

definition draws_from :: "driver \<Rightarrow> nat \<Rightarrow> selectDraws" where
  "draws_from d k =
     \<lparr>uJitter = draw_at d k, uRoll = draw_at d (k + 1), uDelayJitter = draw_at d (k + 2),
      uDelayDifficulty = draw_at d (k + 3), uDelayPersonality = draw_at d (k + 4),
      uPick = draw_at d (k + 5)\<rparr>"

text \<open>
  \<open>handleQuestion\<close>. The options are a list of the length that the driver reports; the chosen
  index and the delay only reach the driver. \<open>waitAndLogRanking\<close> sleeps, reads the page
  inside its own \<open>try\<close> and writes log lines; it changes nothing in the bot and never throws.
\<close>

definition handleQuestion :: "driver \<Rightarrow> bot \<Rightarrow> (string + unit) \<times> bot" where
  "handleQuestion d b =
     (let b0 = b\<lparr>questionNumber := questionNumber b + 1\<rparr>
      in case pageAction d b0 of
           (Inl e, b1) \<Rightarrow> (Inl e, b1)
         | (Inr u, b1) \<Rightarrow>
             (case getAnswerOptions d b1 of
                (Inl e, b2) \<Rightarrow> (Inl e, b2)
              | (Inr n, b2) \<Rightarrow>
                  if n = 0 then (Inr (), b2)
                  else
                    (case selectAnswer (behaviorEngine b2) (bot_profile b2) (replicate n ())
                            None \<lparr>category = None, difficulty = Some (Number 0.5)\<rparr>
                            (draws_from d (clock b2)) of
                       (decision, eng) \<Rightarrow>
                         (let b3 = b2\<lparr>behaviorEngine := eng, clock := clock b2 + 6\<rparr>
                          in case pageAction_bool d b3 of
                               (Inl e, b4) \<Rightarrow> (Inl e, b4)
                             | (Inr clicked, b4) \<Rightarrow>
                                 if clicked
                                 then
                                   (let b5 = b4\<lparr>bot_gameResults := (bot_gameResults b4)
                                               \<lparr>gr_questionsAnswered :=
                                                  gr_questionsAnswered (bot_gameResults b4) + 1\<rparr>\<rparr>
                                    in case checkAnswerResult d b5 of
                                         (Inl e, b6) \<Rightarrow> (Inl e, b6)
                                       | (Inr wasCorrect, b6) \<Rightarrow>
                                           (case wasCorrect of
                                              Some True \<Rightarrow>
                                                (Inr (),
                                                 b6\<lparr>bot_gameResults := (bot_gameResults b6)
                                                      \<lparr>gr_correctAnswers :=
                                                         gr_correctAnswers (bot_gameResults b6) + 1\<rparr>,
                                                    behaviorEngine :=
                                                      engine_recordAnswer (behaviorEngine b6)
                                                        (bot_profile b6) True\<rparr>)
                                            | Some False \<Rightarrow>
                                                (Inr (),
                                                 b6\<lparr>behaviorEngine :=
                                                      engine_recordAnswer (behaviorEngine b6)
                                                        (bot_profile b6) False\<rparr>)
                                            | None \<Rightarrow> (Inr (), b6)))
                                 else (Inr (), b4)))))"

text \<open>
  The loop of \<open>playGame\<close>, with fuel: every test of \<open>this.isRunning\<close> takes one unit, and \<open>None\<close>
  says that the loop was still going when the fuel ran out. An error thrown inside the loop
  is caught and logged, and the game results are returned all the same. The background
  poller that \<open>playGame\<close> starts and stops only touches the committed state of the state
  manager and is left out.
\<close>

fun playGame_loop :: "driver \<Rightarrow> nat \<Rightarrow> nat \<Rightarrow> bot \<Rightarrow> gameResults option \<times> bot" where
  "playGame_loop d 0 errorCount b = (None, b)"
| "playGame_loop d (Suc fuel) errorCount b =
     (if \<not> isRunning b then (Some (bot_gameResults b), b)
      else
        (case bot_detectState d b of
           (Inl e, b1) \<Rightarrow> (Some (bot_gameResults b1), b1)
         | (Inr state, b1) \<Rightarrow>
             (case state of
                QUESTION \<Rightarrow>
                  (case handleQuestion d b1 of
                     (Inl e, b2) \<Rightarrow> (Some (bot_gameResults b2), b2)
                   | (Inr u, b2) \<Rightarrow> playGame_loop d fuel 0 b2)
              | RANKING \<Rightarrow> playGame_loop d fuel 0 b1
              | ANSWER_REVEAL \<Rightarrow> playGame_loop d fuel 0 b1
              | BETWEEN_QUESTIONS \<Rightarrow> playGame_loop d fuel 0 b1
              | GAME_ENDED \<Rightarrow>
                  (case getCurrentScore d b1 of
                     (Inl e, b2) \<Rightarrow> (Some (bot_gameResults b2), b2)
                   | (Inr score, b2) \<Rightarrow>
                       playGame_loop d fuel errorCount
                         (b2\<lparr>bot_gameResults := (bot_gameResults b2)\<lparr>finalScore := score\<rparr>,
                             isRunning := False\<rparr>))
              | REGISTRATION \<Rightarrow>
                  (case pageAction_bool d b1 of
                     (Inl e, b2) \<Rightarrow> (Some (bot_gameResults b2), b2)
                   | (Inr u, b2) \<Rightarrow> playGame_loop d fuel 0 b2)
              | ERROR \<Rightarrow>
                  (if errorCount + 1 \<ge> 10
                   then playGame_loop d fuel (errorCount + 1) (b1\<lparr>isRunning := False\<rparr>)
                   else playGame_loop d fuel (errorCount + 1) b1)
              | WAITING \<Rightarrow> playGame_loop d fuel 0 b1
              | COUNTDOWN \<Rightarrow> playGame_loop d fuel 0 b1
              | UNKNOWN \<Rightarrow> playGame_loop d fuel errorCount b1)))"

text \<open>
  \<open>playGame\<close>: \<open>this.stateManager.startPolling\<close> is outside the \<open>try\<close>, so a missing state
  manager makes \<open>playGame\<close> itself throw.
\<close>

definition playGame :: "driver \<Rightarrow> nat \<Rightarrow> bot \<Rightarrow> (string + gameResults) option \<times> bot" where
  "playGame d fuel b =
     (let b0 = b\<lparr>isRunning := True\<rparr>
      in case stateManager b0 of
           None \<Rightarrow> (Some (Inl null_TypeError), b0)
         | Some sm \<Rightarrow>
             (case playGame_loop d fuel 0 b0 of
                (None, b1) \<Rightarrow> (None, b1)
              | (Some r, b1) \<Rightarrow> (Some (Inr r), b1)))"

text \<open>
  \<open>run\<close>: the value returned (\<open>Inr\<close>) or the message of the error thrown (\<open>Inl\<close>), after the
  cleanup of the \<open>finally\<close> block; \<open>None\<close> when the game loop outlasts the fuel.
\<close>

definition run :: "driver \<Rightarrow> nat \<Rightarrow> string option \<Rightarrow> bot \<Rightarrow> (string + runResult) option \<times> bot" where
  "run d fuel url b =
     (case initialize d b of
        (Inl e, b1) \<Rightarrow> (Some (Inl e), cleanup b1)
      | (Inr u, b1) \<Rightarrow>
          (case joinGame d url b1 of
             (Inl e, b2) \<Rightarrow> (Some (Inl e), cleanup b2)
           | (Inr joined, b2) \<Rightarrow>
               if \<not> joined then (Some (Inr NullResult), cleanup b2)
               else
                 (case waitForGameStart d b2 of
                    (gameStarted, b3) \<Rightarrow>
                      if \<not> gameStarted then (Some (Inr NullResult), cleanup b3)
                      else
                        (case playGame d fuel b3 of
                           (None, b4) \<Rightarrow> (None, b4)
                         | (Some (Inl e), b4) \<Rightarrow> (Some (Inl e), cleanup b4)
                         | (Some (Inr r), b4) \<Rightarrow> (Some (Inr (Results r)), cleanup b4)))))"

text \<open>
  \<open>startBot\<close> from its call to its return, for a bot that runs alone: the first half, the run
  of the bot that \<open>addPlayer\<close> built on the registered profile (its URL option is
  \<open>config.game.url\<close>, here \<open>cfg_url\<close>), the second half. \<open>None\<close> when the run outlasts the fuel.
\<close>

definition startBot ::
  "driver \<Rightarrow> nat \<Rightarrow> engine \<Rightarrow> string \<Rightarrow> string \<Rightarrow> string \<Rightarrow> pool
     \<Rightarrow> ((string + runResult) \<times> pool) option" where
  "startBot d fuel eng cfg_url playerId url pl =
     (case startBot_begin playerId pl of
        (Inl e, pl1) \<Rightarrow> Some (Inl e, pl1)
      | (Inr started, pl1) \<Rightarrow>
          if \<not> started then Some (Inr NullResult, pl1)
          else
            (case map_of (bots pl1) playerId of
               None \<Rightarrow> Some (Inl (''Player not found: '' @ playerId), pl1)
             | Some p \<Rightarrow>
                 (case fst (run d fuel (Some url) (new_TriviaBot p cfg_url None eng)) of
                    None \<Rightarrow> None
                  | Some outcome \<Rightarrow>
                      (case startBot_settle playerId outcome pl1 of
                         (r, pl2) \<Rightarrow> Some (Inr r, pl2)))))"


text \<open>
  A driver for concrete runs: the calls with the given numbers throw the given message, the
  page shows the given text at every read, and every draw is one half.
\<close>

definition example_driver :: "nat list \<Rightarrow> string \<Rightarrow> (nat \<Rightarrow> string) \<Rightarrow> driver" where
  "example_driver failing message text_at =
     \<lparr>throws_at = (\<lambda>k. if k \<in> set failing then Some message else None),
      snapshot_at = (\<lambda>k. \<lparr>pageText = Some (text_at k), letterButtons = Some 0,
                            gripButtons = Some 0, registrationForm = Some False\<rparr>),
      bool_at = (\<lambda>k. True), verdict_at = (\<lambda>k. Some True), score_at = (\<lambda>k. None),
      optionCount_at = (\<lambda>k. 4), draw_at = (\<lambda>k. 1/2), patience_at = (\<lambda>k. 600)\<rparr>"




text \<open>
  A pool with one registered player, and the page of a game that is joined, starts and
  then breaks: a waiting room, a running timer, and from the tenth read on an error message.
\<close>

definition example_pool :: "real option \<Rightarrow> pool" where
  "example_pool noShow =
     addPlayers [example_profile (Some 0) noShow] (new_PlayerPool 100 (Some 2) True)"

definition broken_game_text :: "nat \<Rightarrow> string" where
  "broken_game_text k =
     (if k < 8 then ''hang tight'' else if k < 10 then ''1:30'' else ''something went wrong'')"




section \<open>Admission: the concurrency bound\<close>







section \<open>Admission: every player is launched\<close>



























section \<open>Session start without a roster or a URL\<close>

text \<open>
  C2, as the code has it. For a session whose roster is empty or whose URL is empty,
  \<open>start\<close> fails before the transition to running and before a start time is recorded: with
  the state error of \<open>initialize\<close> when the session has no pool and is not idle, with the
  configuration error otherwise. It leaves the status as it was, except that a session that
  was never initialized (idle, no pool) is left in the initializing state, because \<open>start\<close>
  initializes before it validates.
\<close>

theorem session_start_invalid:
  assumes "session_players s = [] \<or> url_falsy (gameUrl s)"
  shows "fst (session_start cfg t0 t1 outcome s) =
           Inl (if session_pool s = None \<and> status s \<noteq> idle
                then ''Cannot initialize session in '' @ statusName (status s) @ '' state''
                else if session_players s = [] then ''No players in session''
                else ''No game URL set'') \<and>
         status (snd (session_start cfg t0 t1 outcome s)) =
           (if session_pool s = None \<and> status s = idle then initializing else status s) \<and>
         startTime (snd (session_start cfg t0 t1 outcome s)) = startTime s"
  using assms by (auto simp add: session_start_def session_initialize_def)

theorem session_start_invalid_witness:
  "session_players (snd (session_initialize 100 (new_GameSession 100 (Some ''https://www.crowd.live/FNJCN'') [] None True))) = [] \<and>
   status (snd (session_initialize 100 (new_GameSession 100 (Some ''https://www.crowd.live/FNJCN'') [] None True))) = initializing \<and>
   fst (session_start 100 5 9 (Inl ''unused'')
          (snd (session_initialize 100 (new_GameSession 100 (Some ''https://www.crowd.live/FNJCN'') [] None True)))) =
     Inl ''No players in session'' \<and>
   status (snd (session_start 100 5 9 (Inl ''unused'')
          (snd (session_initialize 100 (new_GameSession 100 (Some ''https://www.crowd.live/FNJCN'') [] None True))))) =
     initializing"
  using session_start_invalid [of
      "snd (session_initialize 100 (new_GameSession 100 (Some ''https://www.crowd.live/FNJCN'') [] None True))"
      100 5 9 "Inl ''unused''"]
  by (simp add: session_initialize_def new_GameSession_def)

text \<open>
  The sentence of the specification fails on a fresh session with an empty roster:
  \<open>start\<close> raises the configuration error, and the status has moved from idle to
  initializing.
\<close>

theorem session_start_counterexample:
  "session_players (new_GameSession 100 (Some ''https://www.crowd.live/FNJCN'') [] None True) = [] \<and>
   status (new_GameSession 100 (Some ''https://www.crowd.live/FNJCN'') [] None True) = idle \<and>
   fst (session_start 100 5 9 (Inl ''unused'')
          (new_GameSession 100 (Some ''https://www.crowd.live/FNJCN'') [] None True)) =
     Inl ''No players in session'' \<and>
   status (snd (session_start 100 5 9 (Inl ''unused'')
          (new_GameSession 100 (Some ''https://www.crowd.live/FNJCN'') [] None True))) =
     initializing"
  by (simp add: session_start_def session_initialize_def new_GameSession_def)

section \<open>The lifetime recovery counter\<close>

lemma driver_call_fields:
  "retryCount (snd (driver_call d b)) = retryCount b"
  "bot_maxRetries (snd (driver_call d b)) = bot_maxRetries b"
  by (simp_all add: driver_call_def tick_def split: option.splits)

lemma pageAction_fields:
  "retryCount (snd (pageAction d b)) = retryCount b"
  "bot_maxRetries (snd (pageAction d b)) = bot_maxRetries b"
  by (simp_all add: pageAction_def driver_call_fields)


lemma initialize_fields:
  "retryCount (snd (initialize d b)) = retryCount b"
  "bot_maxRetries (snd (initialize d b)) = bot_maxRetries b"
  by (simp_all add: initialize_def driver_call_def tick_def split: option.splits)




lemma attemptRecovery_maxRetries:
  "bot_maxRetries (snd (attemptRecovery d b)) = bot_maxRetries b"
proof -
  let ?b2 = "cleanupSilent (b\<lparr>retryCount := retryCount b + 1\<rparr>)"
  have r2: "bot_maxRetries ?b2 = bot_maxRetries b" by (simp add: cleanupSilent_def)
  have i: "bot_maxRetries (snd (initialize d ?b2)) = bot_maxRetries b"
    using initialize_fields(2) [of d ?b2] r2 by simp
  have p: "bot_maxRetries (snd (pageAction d (snd (initialize d ?b2)))) = bot_maxRetries b"
    using pageAction_fields(2) [of d "snd (initialize d ?b2)"] i by simp
  show ?thesis using i p
    by (auto simp add: attemptRecovery_def Let_def split: prod.splits sum.splits)
qed























section \<open>Aggregation of results\<close>

lemma getResults_fold:
  "completed (foldl (\<lambda>acc (playerId, result).
              if countsAsCompleted result
              then acc\<lparr>completed := completed acc + 1,
                       players := map_set (players acc) playerId result\<rparr>
              else acc\<lparr>failed := failed acc + 1,
                       players := map_set (players acc) playerId result\<rparr>) acc rs) =
     completed acc + length (filter (\<lambda>(playerId, result). countsAsCompleted result) rs) \<and>
   failed (foldl (\<lambda>acc (playerId, result).
              if countsAsCompleted result
              then acc\<lparr>completed := completed acc + 1,
                       players := map_set (players acc) playerId result\<rparr>
              else acc\<lparr>failed := failed acc + 1,
                       players := map_set (players acc) playerId result\<rparr>) acc rs) =
     failed acc + length (filter (\<lambda>(playerId, result). \<not> countsAsCompleted result) rs)"
  by (induction rs arbitrary: acc) (auto split: prod.splits)

lemma run_no_show:
  assumes "noShowChance (bot_profile b) = Some 1"
    and "fst (initialize d b) = Inr ()"
    and "draw_at d (clock (snd (initialize d b))) < 1"
  shows "fst (run d fuel url b) = Some (Inr NullResult)"
proof -
  obtain b1 where i: "initialize d b = (Inr (), b1)"
    using assms(2) by (cases "initialize d b") auto
  have p: "bot_profile b1 = bot_profile b"
    using i by (auto simp add: initialize_def driver_call_def tick_def
      split: option.splits prod.splits sum.splits)
  have "\<not> shouldJoin (calculateJoinTiming (bot_profile b1) (draw_at d (clock b1))
                         (draw_at d (clock b1 + 1)) (draw_at d (clock b1 + 2)))"
    using assms(1,3) i p by (simp add: calculateJoinTiming_def)
  then have "fst (joinGame d url b1) = Inr False"
    by (simp add: joinGame_def Let_def)
  then show ?thesis using i
    by (auto simp add: run_def split: prod.splits sum.splits)
qed

text \<open>
  C4, as the code has it. \<open>getResults\<close> puts every recorded result into exactly one of two
  classes: completed when the result is an object whose \<open>error\<close> field is absent or empty,
  failed otherwise, which includes the \<open>null\<close> result. A no-show (\<open>noShowChance = 1\<close>, any draw)
  ends the run with \<open>null\<close> and no error, and that result is counted as failed.
\<close>

theorem getResults_partition:
  "completed (getResults pl) =
     length (filter (\<lambda>(playerId, result). countsAsCompleted result) (results pl)) \<and>
   failed (getResults pl) =
     length (filter (\<lambda>(playerId, result). \<not> countsAsCompleted result) (results pl)) \<and>
   completed (getResults pl) + failed (getResults pl) = length (results pl) \<and>
   countsAsCompleted r = ((\<exists>g. r = Results g) \<or> r = ErrorResult []) \<and>
   (noShowChance (bot_profile b) = Some 1 \<and> fst (initialize d b) = Inr () \<and>
    draw_at d (clock (snd (initialize d b))) < 1 \<longrightarrow>
      fst (run d fuel url b) = Some (Inr NullResult) \<and> \<not> countsAsCompleted NullResult)"
proof -
  have cf: "completed (getResults pl) =
     length (filter (\<lambda>(playerId, result). countsAsCompleted result) (results pl)) \<and>
     failed (getResults pl) =
     length (filter (\<lambda>(playerId, result). \<not> countsAsCompleted result) (results pl))"
    unfolding getResults_def
    using getResults_fold [of "\<lparr>totalPlayers = length (bots pl), completed = 0, failed = 0,
                                players = []\<rparr>" "results pl"]
    by simp
  then have c: "completed (getResults pl) =
     length (filter (\<lambda>(playerId, result). countsAsCompleted result) (results pl))"
    and f: "failed (getResults pl) =
     length (filter (\<lambda>(playerId, result). \<not> countsAsCompleted result) (results pl))"
    by simp_all
  have e: "(\<lambda>(playerId, result). \<not> countsAsCompleted result) =
           (\<lambda>x. \<not> (case x of (playerId :: string, result) \<Rightarrow> countsAsCompleted result))"
    by (simp add: fun_eq_iff)
  have "length (filter (\<lambda>(playerId, result). countsAsCompleted result) (results pl)) +
        length (filter (\<lambda>(playerId, result). \<not> countsAsCompleted result) (results pl)) =
        length (results pl)"
    unfolding e by (rule sum_length_filter_compl)
  then have s: "completed (getResults pl) + failed (getResults pl) = length (results pl)"
    using c f by simp
  have k: "countsAsCompleted r = ((\<exists>g. r = Results g) \<or> r = ErrorResult [])"
    by (cases r) simp_all
  show ?thesis using c f s k run_no_show [of b d fuel url] by simp
qed

theorem getResults_partition_witness:
  "noShowChance (bot_profile (new_TriviaBot (example_profile (Some 0) (Some 1))
       ''https://www.crowd.live/FNJCN'' None Map.empty)) = Some 1 \<and>
   fst (initialize (example_driver [] [] broken_game_text)
          (new_TriviaBot (example_profile (Some 0) (Some 1)) ''https://www.crowd.live/FNJCN''
             None Map.empty)) = Inr () \<and>
   draw_at (example_driver [] [] broken_game_text)
     (clock (snd (initialize (example_driver [] [] broken_game_text)
          (new_TriviaBot (example_profile (Some 0) (Some 1)) ''https://www.crowd.live/FNJCN''
             None Map.empty)))) < 1 \<and>
   fst (run (example_driver [] [] broken_game_text) 11 None
          (new_TriviaBot (example_profile (Some 0) (Some 1)) ''https://www.crowd.live/FNJCN''
             None Map.empty)) = Some (Inr NullResult) \<and>
   \<not> countsAsCompleted NullResult"
proof -
  let ?d = "example_driver [] [] broken_game_text"
  let ?b = "new_TriviaBot (example_profile (Some 0) (Some 1)) ''https://www.crowd.live/FNJCN''
             None Map.empty"
  have h1: "noShowChance (bot_profile ?b) = Some 1" by code_simp
  have h2: "fst (initialize ?d ?b) = Inr ()" by code_simp
  have h3: "draw_at ?d (clock (snd (initialize ?d ?b))) < 1" by code_simp
  from getResults_partition [of _ _ ?b ?d 11 None] h1 h2 h3
  show ?thesis by blast
qed

text \<open>
  The sentence of the specification fails on a pool whose one player is a no-show: the
  run returns \<open>null\<close>, no error is recorded, and the player is counted as failed.
\<close>

theorem getResults_no_show_counterexample:
  "map_option fst (startBot (example_driver [] [] broken_game_text) 11 Map.empty
      ''https://www.crowd.live/FNJCN'' ''p1'' ''https://www.crowd.live/FNJCN''
      (example_pool (Some 1))) = Some (Inr NullResult) \<and>
   map_option (results \<circ> snd)
     (startBot (example_driver [] [] broken_game_text) 11 Map.empty
        ''https://www.crowd.live/FNJCN'' ''p1'' ''https://www.crowd.live/FNJCN''
        (example_pool (Some 1))) = Some [(''p1'', NullResult)] \<and>
   map_option (completed \<circ> getResults \<circ> snd)
     (startBot (example_driver [] [] broken_game_text) 11 Map.empty
        ''https://www.crowd.live/FNJCN'' ''p1'' ''https://www.crowd.live/FNJCN''
        (example_pool (Some 1))) = Some 0 \<and>
   map_option (failed \<circ> getResults \<circ> snd)
     (startBot (example_driver [] [] broken_game_text) 11 Map.empty
        ''https://www.crowd.live/FNJCN'' ''p1'' ''https://www.crowd.live/FNJCN''
        (example_pool (Some 1))) = Some 1"
  by code_simp

section \<open>Phase precedence\<close>

lemma setState_fst: "fst (setState s sm) = s"
  by (simp add: setState_def Let_def)

text \<open>
  C5, as the code has it. When the reads of a snapshot succeed, the game-ended keywords match
  and answer controls are present with a timer above zero, \<open>detectState\<close> never resolves to
  Question: it resolves to GameEnded, unless a returning-player marker or a registration
  form is present, which make it Registration (rules 1 and 2 come first).
\<close>

theorem detectState_gameEnded_precedence:
  assumes "pageText snap = Some t" and "gameEndedText t"
    and "0 < answerButtonCount snap" and "0 < timerSeconds t"
    and "registrationForm snap = Some form"
  shows "fst (detectState snap sm) =
           (if returningPlayerText t \<or> form then REGISTRATION else GAME_ENDED) \<and>
         fst (detectState snap sm) \<noteq> QUESTION"
  using assms
  by (simp add: detectState_def gameEndedText_def returningPlayerText_def setState_fst)

theorem detectState_gameEnded_precedence_witness:
  "pageText (example_snapshot ''game over 0:30'') = Some ''game over 0:30'' \<and>
   gameEndedText ''game over 0:30'' \<and>
   0 < answerButtonCount (example_snapshot ''game over 0:30'') \<and>
   0 < timerSeconds ''game over 0:30'' \<and>
   registrationForm (example_snapshot ''game over 0:30'') = Some False \<and>
   fst (detectState (example_snapshot ''game over 0:30'')
          (new_GameStateManager\<lparr>currentState := QUESTION\<rparr>)) = GAME_ENDED"
proof -
  have h1: "pageText (example_snapshot ''game over 0:30'') = Some ''game over 0:30''"
    by (simp add: example_snapshot_def)
  have h2: "gameEndedText ''game over 0:30''" by code_simp
  have h3: "0 < answerButtonCount (example_snapshot ''game over 0:30'')" by code_simp
  have h4: "0 < timerSeconds ''game over 0:30''" by code_simp
  have h5: "registrationForm (example_snapshot ''game over 0:30'') = Some False"
    by (simp add: example_snapshot_def)
  have h6: "\<not> returningPlayerText ''game over 0:30''" by code_simp
  from detectState_gameEnded_precedence [OF h1 h2 h3 h4 h5] h6
  have "fst (detectState (example_snapshot ''game over 0:30'')
          (new_GameStateManager\<lparr>currentState := QUESTION\<rparr>)) = GAME_ENDED"
    by simp
  with h1 h2 h3 h4 h5 show ?thesis by blast
qed

text \<open>
  The sentence of the specification fails on a page that shows a returning-player
  marker next to the game-ended text: the phase is Registration.
\<close>

theorem detectState_gameEnded_counterexample:
  "pageText (example_snapshot ''welcome back! game over 0:30'') =
     Some ''welcome back! game over 0:30'' \<and>
   gameEndedText ''welcome back! game over 0:30'' \<and>
   0 < answerButtonCount (example_snapshot ''welcome back! game over 0:30'') \<and>
   0 < timerSeconds ''welcome back! game over 0:30'' \<and>
   fst (detectState (example_snapshot ''welcome back! game over 0:30'') new_GameStateManager) =
     REGISTRATION \<and>
   fst (detectState (example_snapshot ''welcome back! game over 0:30'') new_GameStateManager) \<noteq>
     GAME_ENDED"
  by code_simp

section \<open>Ten consecutive error phases\<close>

lemma bot_detectState_ERROR:
  assumes "stateManager b \<noteq> None"
    and "\<forall>sm. fst (detectState (snapshot_at d (clock b)) sm) = ERROR"
  shows "\<exists>sm'. bot_detectState d b = (Inr ERROR, tick (b\<lparr>stateManager := Some sm'\<rparr>))"
proof -
  from assms(1) obtain sm where sm: "stateManager b = Some sm" by auto
  obtain st sm' where ds: "detectState (snapshot_at d (clock b)) sm = (st, sm')"
    by (cases "detectState (snapshot_at d (clock b)) sm")
  with assms(2) have "st = ERROR" by (metis fst_conv)
  with sm ds have "bot_detectState d b = (Inr ERROR, tick (b\<lparr>stateManager := Some sm'\<rparr>))"
    by (simp add: bot_detectState_def)
  then show ?thesis ..
qed

lemma playGame_loop_ERROR_step:
  assumes "isRunning b" and "bot_detectState d b = (Inr ERROR, b1)"
  shows "playGame_loop d (Suc f) ec b =
           (if ec + 1 \<ge> 10 then playGame_loop d f (ec + 1) (b1\<lparr>isRunning := False\<rparr>)
            else playGame_loop d f (ec + 1) b1)"
  using assms by simp

lemma playGame_loop_errors_prefix:
  assumes "isRunning b" and "stateManager b \<noteq> None"
    and "\<forall>k<n. \<forall>sm. fst (detectState (snapshot_at d (clock b + k)) sm) = ERROR"
    and "ec + n < 10"
  shows "\<exists>b'. (\<forall>m. playGame_loop d (n + m) ec b = playGame_loop d m (ec + n) b') \<and>
              isRunning b' \<and> stateManager b' \<noteq> None \<and> clock b' = clock b + n \<and>
              bot_gameResults b' = bot_gameResults b"
  using assms
proof (induction n arbitrary: b ec)
  case 0
  then show ?case by auto
next
  case (Suc n)
  have e0: "\<forall>sm. fst (detectState (snapshot_at d (clock b)) sm) = ERROR"
    using Suc.prems(3) by (metis add.right_neutral zero_less_Suc)
  from bot_detectState_ERROR [OF Suc.prems(2) e0] obtain sm' where
    ds: "bot_detectState d b = (Inr ERROR, tick (b\<lparr>stateManager := Some sm'\<rparr>))" ..
  let ?b1 = "tick (b\<lparr>stateManager := Some sm'\<rparr>)"
  have p1: "isRunning ?b1" "stateManager ?b1 \<noteq> None" "clock ?b1 = clock b + 1"
    "bot_gameResults ?b1 = bot_gameResults b"
    using Suc.prems(1) by (simp_all add: tick_def)
  have p3: "\<forall>k<n. \<forall>sm. fst (detectState (snapshot_at d (clock ?b1 + k)) sm) = ERROR"
  proof (intro allI impI)
    fix k sm assume "k < n"
    then have "Suc k < Suc n" by simp
    with Suc.prems(3) have "fst (detectState (snapshot_at d (clock b + Suc k)) sm) = ERROR" by blast
    then show "fst (detectState (snapshot_at d (clock ?b1 + k)) sm) = ERROR" by (simp add: p1(3))
  qed
  have p4: "(ec + 1) + n < 10" using Suc.prems(4) by simp
  from Suc.IH [OF p1(1) p1(2) p3 p4] obtain b' where
    b': "\<forall>m. playGame_loop d (n + m) (ec + 1) ?b1 = playGame_loop d m (ec + 1 + n) b'"
      "isRunning b'" "stateManager b' \<noteq> None" "clock b' = clock ?b1 + n"
      "bot_gameResults b' = bot_gameResults ?b1"
    by blast
  have step: "\<And>m. playGame_loop d (Suc n + m) ec b = playGame_loop d (n + m) (ec + 1) ?b1"
    using playGame_loop_ERROR_step [OF Suc.prems(1) ds, of _ ec] Suc.prems(4)
    by (simp del: playGame_loop.simps)
  show ?case
  proof (intro exI conjI)
    show "\<forall>m. playGame_loop d (Suc n + m) ec b = playGame_loop d m (ec + Suc n) b'"
      using step b'(1) by (simp del: playGame_loop.simps)
    show "isRunning b'" by fact
    show "stateManager b' \<noteq> None" by fact
    show "clock b' = clock b + Suc n" using b'(4) p1(3) by simp
    show "bot_gameResults b' = bot_gameResults b" using b'(5) p1(4) by simp
  qed
qed

lemma playGame_loop_ten_errors:
  assumes "isRunning b" and "stateManager b \<noteq> None"
    and "\<forall>k<10. \<forall>sm. fst (detectState (snapshot_at d (clock b + k)) sm) = ERROR"
    and "11 \<le> fuel"
  shows "\<exists>b'. playGame_loop d fuel 0 b = (Some (bot_gameResults b), b') \<and>
              \<not> isRunning b' \<and> clock b' = clock b + 10"
proof -
  have p3: "\<forall>k<9. \<forall>sm. fst (detectState (snapshot_at d (clock b + k)) sm) = ERROR"
    using assms(3) by simp
  from playGame_loop_errors_prefix [OF assms(1,2) p3, of 0] obtain b9 where
    b9: "\<forall>m. playGame_loop d (9 + m) 0 b = playGame_loop d m 9 b9"
      "isRunning b9" "stateManager b9 \<noteq> None" "clock b9 = clock b + 9"
      "bot_gameResults b9 = bot_gameResults b"
    by (auto simp del: playGame_loop.simps)
  have e9: "\<forall>sm. fst (detectState (snapshot_at d (clock b9)) sm) = ERROR"
    using assms(3) b9(4) by simp
  from bot_detectState_ERROR [OF b9(3) e9] obtain sm' where
    ds: "bot_detectState d b9 = (Inr ERROR, tick (b9\<lparr>stateManager := Some sm'\<rparr>))" ..
  from assms(4) obtain m0 where "fuel = 11 + m0" using le_Suc_ex by blast
  then have "fuel = 9 + Suc (Suc m0)" by simp
  then obtain m where fuel: "fuel = 9 + Suc (Suc m)" ..
  let ?b' = "(tick (b9\<lparr>stateManager := Some sm'\<rparr>))\<lparr>isRunning := False\<rparr>"
  have "playGame_loop d fuel 0 b = playGame_loop d (Suc (Suc m)) 9 b9"
    unfolding fuel using b9(1) by blast
  also have "\<dots> = playGame_loop d (Suc m) 10 ?b'"
    using playGame_loop_ERROR_step [OF b9(2) ds, of "Suc m" 9] by (simp del: playGame_loop.simps)
  also have "\<dots> = (Some (bot_gameResults ?b'), ?b')"
    by simp
  finally have "playGame_loop d fuel 0 b = (Some (bot_gameResults b), ?b')"
    using b9(5) by (simp add: tick_def)
  moreover have "\<not> isRunning ?b'" by simp
  moreover have "clock ?b' = clock b + 10" using b9(4) by (simp add: tick_def)
  ultimately show ?thesis by blast
qed

lemma map_of_map_set: "map_of (map_set m k v) = (map_of m)(k \<mapsto> v)"
  by (induction m) (auto simp add: fun_eq_iff)

lemma startBot_settle_effect:
  "fst (startBot_settle playerId (Inr r) pl) = r \<and>
   map_of (results (snd (startBot_settle playerId (Inr r) pl))) playerId = Some r \<and>
   (\<forall>other. other \<noteq> playerId \<longrightarrow>
      map_of (results (snd (startBot_settle playerId (Inr r) pl))) other =
        map_of (results pl) other \<and>
      (other \<in> set (activeBots (snd (startBot_settle playerId (Inr r) pl)))) =
        (other \<in> set (activeBots pl)))"
  by (simp add: startBot_settle_def map_of_map_set set_delete_def)

lemma waitForGameStart_stateManager:
  assumes "waitForGameStart d b = (True, b')"
  shows "stateManager b' \<noteq> None"
proof -
  have ds: "\<And>x st y. bot_detectState d x = (Inr st, y) \<Longrightarrow> stateManager y \<noteq> None"
    by (auto simp add: bot_detectState_def tick_def split: option.splits prod.splits)
  show ?thesis using assms
    by (auto simp add: waitForGameStart_def Let_def split: prod.splits sum.splits if_splits
          dest: ds)
qed

lemma playGame_ten_errors:
  assumes "stateManager b \<noteq> None"
    and "\<forall>k<10. \<forall>sm. fst (detectState (snapshot_at d (clock b + k)) sm) = ERROR"
    and "11 \<le> fuel"
  shows "\<exists>b'. playGame d fuel b = (Some (Inr (bot_gameResults b)), b') \<and>
              \<not> isRunning b' \<and> clock b' = clock b + 10"
proof -
  let ?b0 = "b\<lparr>isRunning := True\<rparr>"
  have "\<exists>b'. playGame_loop d fuel 0 ?b0 = (Some (bot_gameResults ?b0), b') \<and>
              \<not> isRunning b' \<and> clock b' = clock ?b0 + 10"
    using playGame_loop_ten_errors [of ?b0 d fuel] assms by simp
  then obtain b' where "playGame_loop d fuel 0 ?b0 = (Some (bot_gameResults b), b')"
    "\<not> isRunning b'" "clock b' = clock b + 10" by auto
  then have "playGame d fuel b = (Some (Inr (bot_gameResults b)), b') \<and>
              \<not> isRunning b' \<and> clock b' = clock b + 10"
    using assms(1) by (auto simp add: playGame_def Let_def)
  then show ?thesis ..
qed

text \<open>
  C6, as the code has it. When the game loop of a bot that has initialized, joined and seen the
  game start classifies the Error phase at each of its first ten reads, the loop stops at the
  tenth (given fuel for eleven tests of the running flag), and \<open>run\<close> returns the bot's game
  results as an ordinary value: no error is thrown. \<open>startBot\<close> records that value for the
  player, it counts as completed, and the results and the activity of every other player of
  the pool are untouched.
\<close>

theorem ten_errors_stop_agent:
  assumes "initialize d b = (Inr (), b1)" and "joinGame d url b1 = (Inr True, b2)"
    and "waitForGameStart d b2 = (True, b3)"
    and "\<forall>k<10. \<forall>sm. fst (detectState (snapshot_at d (clock b3 + k)) sm) = ERROR"
    and "11 \<le> fuel"
  shows "fst (run d fuel url b) = Some (Inr (Results (bot_gameResults b3))) \<and>
         \<not> isRunning (snd (run d fuel url b)) \<and>
         clock (snd (run d fuel url b)) = clock b3 + 10 \<and>
         countsAsCompleted (Results (bot_gameResults b3)) \<and>
         fst (startBot_settle playerId (Inr (Results (bot_gameResults b3))) pl) =
           Results (bot_gameResults b3) \<and>
         map_of (results (snd (startBot_settle playerId (Inr (Results (bot_gameResults b3))) pl)))
           playerId = Some (Results (bot_gameResults b3)) \<and>
         (\<forall>other. other \<noteq> playerId \<longrightarrow>
            map_of (results (snd (startBot_settle playerId (Inr (Results (bot_gameResults b3))) pl)))
              other = map_of (results pl) other \<and>
            (other \<in> set (activeBots
                (snd (startBot_settle playerId (Inr (Results (bot_gameResults b3))) pl)))) =
              (other \<in> set (activeBots pl)))"
proof -
  from playGame_ten_errors [OF waitForGameStart_stateManager [OF assms(3)] assms(4,5)]
  obtain b' where pg: "playGame d fuel b3 = (Some (Inr (bot_gameResults b3)), b')"
    and b': "\<not> isRunning b'" "clock b' = clock b3 + 10" by blast
  have r: "run d fuel url b = (Some (Inr (Results (bot_gameResults b3))), cleanup b')"
    using assms(1,2,3) pg by (simp add: run_def)
  have "fst (run d fuel url b) = Some (Inr (Results (bot_gameResults b3))) \<and>
         \<not> isRunning (snd (run d fuel url b)) \<and>
         clock (snd (run d fuel url b)) = clock b3 + 10"
    using r b' by (simp add: cleanup_def)
  then show ?thesis
    using startBot_settle_effect [of playerId "Results (bot_gameResults b3)" pl] by simp
qed

lemma error_page_detected:
  "fst (detectState \<lparr>pageText = Some ''something went wrong'', letterButtons = Some 0,
                     gripButtons = Some 0, registrationForm = Some False\<rparr> sm) = ERROR"
proof -
  have f: "\<not> js_includes ''something went wrong'' ''welcome back''"
    "\<not> js_includes ''something went wrong'' ''continue playing''"
    "\<not> js_includes ''something went wrong'' ''you finished''"
    "\<not> js_includes ''something went wrong'' ''game over''"
    "\<not> js_includes ''something went wrong'' ''thank you for playing''"
    "\<not> js_includes ''something went wrong'' ''final results''"
    "\<not> js_includes ''something went wrong'' ''your ranking''"
    "\<not> js_includes ''something went wrong'' ''time has run out''"
    "\<not> js_includes ''something went wrong'' ''will be activated shortly''"
    "\<not> js_includes ''something went wrong'' ''waiting''"
    "\<not> js_includes ''something went wrong'' ''game will start''"
    "\<not> js_includes ''something went wrong'' ''hang tight''"
    "timer_match ''something went wrong'' = None"
    "timerSeconds ''something went wrong'' = - 1"
    "js_includes ''something went wrong'' ''something went wrong''"
    by code_simp+
  show ?thesis
    by (simp add: detectState_def f setState_fst answerButtonCount_def
          del: js_includes.simps timer_match.simps)
qed

theorem ten_errors_stop_agent_witness:
  "fst (initialize (example_driver [] [] broken_game_text)
          (new_TriviaBot (example_profile (Some 0) (Some 0)) ''https://www.crowd.live/FNJCN'' None
             Map.empty)) = Inr () \<and>
   fst (run (example_driver [] [] broken_game_text) 11 None
          (new_TriviaBot (example_profile (Some 0) (Some 0)) ''https://www.crowd.live/FNJCN'' None
             Map.empty)) =
     Some (Inr (Results \<lparr>gr_questionsAnswered = 0, gr_correctAnswers = 0, finalScore = None,
                          finalRank = None\<rparr>)) \<and>
   \<not> isRunning (snd (run (example_driver [] [] broken_game_text) 11 None
          (new_TriviaBot (example_profile (Some 0) (Some 0)) ''https://www.crowd.live/FNJCN'' None
             Map.empty))) \<and>
   clock (snd (run (example_driver [] [] broken_game_text) 11 None
          (new_TriviaBot (example_profile (Some 0) (Some 0)) ''https://www.crowd.live/FNJCN'' None
             Map.empty))) = 20"
proof -
  let ?d = "example_driver [] [] broken_game_text"
  let ?b = "new_TriviaBot (example_profile (Some 0) (Some 0)) ''https://www.crowd.live/FNJCN'' None
             Map.empty"
  let ?b1 = "snd (initialize ?d ?b)"
  let ?b2 = "snd (joinGame ?d None ?b1)"
  let ?b3 = "snd (waitForGameStart ?d ?b2)"
  have i: "fst (initialize ?d ?b) = Inr ()" by code_simp
  have j: "fst (joinGame ?d None ?b1) = Inr True" by code_simp
  have w: "fst (waitForGameStart ?d ?b2) = True" by code_simp
  have c: "clock ?b3 = 10" by code_simp
  have g: "bot_gameResults ?b3 =
      \<lparr>gr_questionsAnswered = 0, gr_correctAnswers = 0, finalScore = None, finalRank = None\<rparr>"
    by code_simp
  have h1: "initialize ?d ?b = (Inr (), ?b1)" using i by (simp add: prod_eq_iff)
  have h2: "joinGame ?d None ?b1 = (Inr True, ?b2)" using j by (simp add: prod_eq_iff)
  have h3: "waitForGameStart ?d ?b2 = (True, ?b3)" using w by (simp add: prod_eq_iff)
  have h4: "\<forall>k<10. \<forall>sm. fst (detectState (snapshot_at ?d (clock ?b3 + k)) sm) = ERROR"
    unfolding c by (simp add: example_driver_def broken_game_text_def error_page_detected)
  have h5: "(11::nat) \<le> 11" by simp
  from ten_errors_stop_agent [OF h1 h2 h3 h4 h5] i c g
  show ?thesis by simp
qed

text \<open>
  The sentence of the specification fails on that run: what the pool records for the
  agent is its game results, without an error, and \<open>getResults\<close> counts it as completed.
\<close>

theorem ten_errors_counterexample:
  "map_option fst (startBot (example_driver [] [] broken_game_text) 11 Map.empty
      ''https://www.crowd.live/FNJCN'' ''p1'' ''https://www.crowd.live/FNJCN''
      (example_pool (Some 0))) =
     Some (Inr (Results \<lparr>gr_questionsAnswered = 0, gr_correctAnswers = 0, finalScore = None,
                          finalRank = None\<rparr>)) \<and>
   map_option (failed \<circ> getResults \<circ> snd)
     (startBot (example_driver [] [] broken_game_text) 11 Map.empty
        ''https://www.crowd.live/FNJCN'' ''p1'' ''https://www.crowd.live/FNJCN''
        (example_pool (Some 0))) = Some 0 \<and>
   map_option (completed \<circ> getResults \<circ> snd)
     (startBot (example_driver [] [] broken_game_text) 11 Map.empty
        ''https://www.crowd.live/FNJCN'' ''p1'' ''https://www.crowd.live/FNJCN''
        (example_pool (Some 0))) = Some 1"
  by code_simp

section \<open>Streak flags\<close>

lemma recordAnswer_flags:
  "isHot (recordAnswer w s) = (3 \<le> currentStreak (recordAnswer w s))"
  "isCold (recordAnswer w s) = (currentStreak (recordAnswer w s) \<le> - 3)"
  by (simp_all add: recordAnswer_def Let_def)

lemma reset_flags:
  "isHot (reset s) = (3 \<le> currentStreak (reset s))"
  "isCold (reset s) = (currentStreak (reset s) \<le> - 3)"
  by (simp_all add: reset_def)

lemma recordAnswers_flags:
  "isHot s = (3 \<le> currentStreak s) \<and> isCold s = (currentStreak s \<le> - 3) \<longrightarrow>
   isHot (recordAnswers ws s) = (3 \<le> currentStreak (recordAnswers ws s)) \<and>
   isCold (recordAnswers ws s) = (currentStreak (recordAnswers ws s) \<le> - 3)"
proof (induction ws arbitrary: s)
  case Nil
  show ?case by simp
next
  case (Cons w ws)
  show ?case using Cons.IH [of "recordAnswer w s"] recordAnswer_flags [of w s] by simp
qed

text \<open>
  C7. After any sequence of \<open>recordAnswer\<close> calls on a freshly reset player state, \<open>isHot\<close>
  holds exactly when the signed streak is at least 3, \<open>isCold\<close> exactly when it is at most -3,
  and the two flags are never both set; a single \<open>recordAnswer\<close> and \<open>reset\<close> establish the
  same relation from any state.
\<close>

theorem streak_flags_invariant:
  "(isHot (recordAnswers ws (reset s0)) = (3 \<le> currentStreak (recordAnswers ws (reset s0)))) \<and>
   (isCold (recordAnswers ws (reset s0)) = (currentStreak (recordAnswers ws (reset s0)) \<le> - 3)) \<and>
   \<not> (isHot (recordAnswers ws (reset s0)) \<and> isCold (recordAnswers ws (reset s0))) \<and>
   (isHot (recordAnswer w s) = (3 \<le> currentStreak (recordAnswer w s))) \<and>
   (isCold (recordAnswer w s) = (currentStreak (recordAnswer w s) \<le> - 3)) \<and>
   \<not> (isHot (recordAnswer w s) \<and> isCold (recordAnswer w s)) \<and>
   (isHot (reset s) = (3 \<le> currentStreak (reset s))) \<and>
   (isCold (reset s) = (currentStreak (reset s) \<le> - 3)) \<and>
   \<not> (isHot (reset s) \<and> isCold (reset s))"
proof -
  have a: "isHot (recordAnswers ws (reset s0)) = (3 \<le> currentStreak (recordAnswers ws (reset s0)))"
    and b: "isCold (recordAnswers ws (reset s0)) = (currentStreak (recordAnswers ws (reset s0)) \<le> - 3)"
    using recordAnswers_flags [of "reset s0" ws] reset_flags [of s0] by simp_all
  have c: "\<not> (isHot (recordAnswers ws (reset s0)) \<and> isCold (recordAnswers ws (reset s0)))"
    unfolding a b by arith
  have d: "\<not> (isHot (recordAnswer w s) \<and> isCold (recordAnswer w s))"
    unfolding recordAnswer_flags by arith
  have e: "\<not> (isHot (reset s) \<and> isCold (reset s))"
    by (simp add: reset_def)
  show ?thesis using a b c d e recordAnswer_flags [of w s] reset_flags [of s] by blast
qed


section \<open>Correctness probability\<close>

lemma clamp_bounds: "(0.1::real) \<le> max 0.1 (min 0.95 x) \<and> max 0.1 (min 0.95 x) \<le> 0.95"
  by (simp add: max_def min_def)

lemma js_clamp_cases:
  "js_max (Number 0.1) (js_min (Number 0.95) v) = NaN \<or>
   (\<exists>x. js_max (Number 0.1) (js_min (Number 0.95) v) = Number x \<and> 0.1 \<le> x \<and> x \<le> 0.95)"
proof (cases v)
  case (Number y)
  then show ?thesis
    using clamp_bounds [of y] by (simp add: js_max_def js_min_def js_arith_def)
qed (simp_all add: js_max_def js_min_def js_arith_def)

text \<open>
  What the clamp of \<open>shouldAnswerCorrectly\<close> does guarantee, for every profile, state, options
  and jitter draw: the value compared with the Bernoulli draw is \<open>NaN\<close>, or a number between
  0.10 and 0.95.
\<close>

lemma accuracy_clamped_or_NaN:
  "shouldAnswerCorrectly_accuracy p st opts u = NaN \<or>
   (\<exists>x. shouldAnswerCorrectly_accuracy p st opts u = Number x \<and> 0.1 \<le> x \<and> x \<le> 0.95)"
proof -
  have "\<exists>v. shouldAnswerCorrectly_accuracy p st opts u =
          js_max (Number 0.1) (js_min (Number 0.95) v)"
    unfolding shouldAnswerCorrectly_accuracy_def Let_def by blast
  then obtain v where
    v: "shouldAnswerCorrectly_accuracy p st opts u = js_max (Number 0.1) (js_min (Number 0.95) v)" ..
  show ?thesis unfolding v by (rule js_clamp_cases)
qed

text \<open>
  When the accuracy, the consistency, the difficulty and the category accuracy that the lookup
  finds are all numbers, the value is a number between 0.10 and 0.95.
\<close>

lemma accuracy_clamped_numbers:
  assumes "accuracy p = Number a" and "consistency p = Number c"
    and "difficulty opts = None \<or> (\<exists>d. difficulty opts = Some (Number d))"
    and "\<And>areas k. knowledgeAreas p = Some areas \<Longrightarrow>
           js_get areas (case category opts of None \<Rightarrow> ''general'' | Some n \<Rightarrow> n) = Some k \<Longrightarrow>
           \<exists>x. k = Number x"
  shows "\<exists>x. shouldAnswerCorrectly_accuracy p st opts u = Number x \<and> 0.1 \<le> x \<and> x \<le> 0.95"
proof -
  define a1 where "a1 =
     (case knowledgeAreas p of
        None \<Rightarrow> accuracy p
      | Some areas \<Rightarrow>
          (case js_get areas (case category opts of None \<Rightarrow> ''general'' | Some n \<Rightarrow> n) of
             None \<Rightarrow> accuracy p
           | Some k \<Rightarrow> if js_truthy k then k else accuracy p))"
  have "\<exists>x. a1 = Number x"
    unfolding a1_def using assms(1,4) by (auto split: option.splits)
  then obtain x1 where x1: "a1 = Number x1" ..
  have "\<exists>d. (case difficulty opts of None \<Rightarrow> Number 0.5 | Some d \<Rightarrow> d) = Number d"
  proof (cases "difficulty opts")
    case None
    then have "(case difficulty opts of None \<Rightarrow> Number 0.5 | Some d \<Rightarrow> d) = Number 0.5"
      by simp
    then show ?thesis ..
  next
    case (Some v)
    with assms(3) show ?thesis by auto
  qed
  then obtain d where
    d: "(case difficulty opts of None \<Rightarrow> Number 0.5 | Some d \<Rightarrow> d) = Number d" ..
  define y where "y = x1 + getAccuracyModifier st - d * 0.2 + (u - 0.5) * ((1 - c) * 0.2)"
  have y: "shouldAnswerCorrectly_accuracy p st opts u = Number (max 0.1 (min 0.95 y))"
    unfolding shouldAnswerCorrectly_accuracy_def Let_def a1_def [symmetric] x1 d assms(2) y_def
    by (simp add: js_add_def js_sub_def js_mul_def js_max_def js_min_def js_arith_def)
  show ?thesis unfolding y using clamp_bounds [of y] by simp
qed

text \<open>
  C8. The claim is that the probability that \<open>shouldAnswerCorrectly\<close> compares its Bernoulli draw
  with lies between 0.10 and 0.95 for every profile, state, category and difficulty. The clamp
  \<open>Math.max(0.1, Math.min(0.95, accuracy))\<close> lets \<open>NaN\<close> through. For the default profile with
  the consistency \<open>NaN\<close> (what \<open>parseFromSheetRow\<close> stores for a consistency cell that is not
  numeric, and \<open>validateProfile\<close> accepts), and the options that \<open>handleQuestion\<close> passes, the
  value is \<open>NaN\<close>, it is not a number between 0.10 and 0.95, and the decision is "incorrect" even
  for the draw 0. The same happens for the default profile and the category \<open>constructor\<close>,
  which the lookup in \<open>knowledgeAreas\<close> finds as an inherited function.
\<close>

theorem accuracy_clamp_passes_NaN:
  "consistency ((example_profile None None)\<lparr>consistency := NaN\<rparr>) = NaN \<and>
   shouldAnswerCorrectly_accuracy ((example_profile None None)\<lparr>consistency := NaN\<rparr>)
     new_PlayerState \<lparr>category = None, difficulty = Some (Number 0.5)\<rparr> (1/4) = NaN \<and>
   \<not> (\<exists>x. shouldAnswerCorrectly_accuracy ((example_profile None None)\<lparr>consistency := NaN\<rparr>)
            new_PlayerState \<lparr>category = None, difficulty = Some (Number 0.5)\<rparr> (1/4) = Number x \<and>
          0.1 \<le> x \<and> x \<le> 0.95) \<and>
   \<not> fst (shouldAnswerCorrectly Map.empty ((example_profile None None)\<lparr>consistency := NaN\<rparr>)
            \<lparr>category = None, difficulty = Some (Number 0.5)\<rparr> (1/4) 0) \<and>
   js_get (the (knowledgeAreas (example_profile None None))) ''constructor'' = Some ObjectValue \<and>
   shouldAnswerCorrectly_accuracy (example_profile None None) new_PlayerState
     \<lparr>category = Some ''constructor'', difficulty = None\<rparr> (1/4) = NaN"
proof -
  have c: "consistency ((example_profile None None)\<lparr>consistency := NaN\<rparr>) = NaN"
    by simp
  have n: "shouldAnswerCorrectly_accuracy ((example_profile None None)\<lparr>consistency := NaN\<rparr>)
     new_PlayerState \<lparr>category = None, difficulty = Some (Number 0.5)\<rparr> (1/4) = NaN"
    by (simp add: shouldAnswerCorrectly_accuracy_def example_profile_def js_get_def
        js_add_def js_sub_def js_mul_def js_max_def js_min_def js_arith_def)
  have s: "\<not> fst (shouldAnswerCorrectly Map.empty ((example_profile None None)\<lparr>consistency := NaN\<rparr>)
            \<lparr>category = None, difficulty = Some (Number 0.5)\<rparr> (1/4) 0)"
    by (simp add: shouldAnswerCorrectly_def getPlayerState_def example_profile_def n [unfolded example_profile_def, simplified]
        js_less_def)
  have g: "js_get (the (knowledgeAreas (example_profile None None))) ''constructor'' = Some ObjectValue"
    by (simp add: example_profile_def js_get_def object_prototype_names_def)
  have k: "shouldAnswerCorrectly_accuracy (example_profile None None) new_PlayerState
     \<lparr>category = Some ''constructor'', difficulty = None\<rparr> (1/4) = NaN"
    by (simp add: shouldAnswerCorrectly_accuracy_def example_profile_def js_get_def
        object_prototype_names_def js_add_def js_sub_def js_mul_def js_max_def js_min_def
        js_arith_def)
  show ?thesis using c n s g k by simp
qed

section \<open>Join timing\<close>

lemma randomDelay_range:
  assumes "0 \<le> u" "u < 1" "lo \<le> hi" "lo \<in> \<int>" "hi \<in> \<int>"
  shows "lo \<le> randomDelay lo hi u \<and> randomDelay lo hi u \<le> hi"
proof -
  have pos: "0 \<le> u * (hi - lo + 1)" using assms by simp
  then have f0: "0 \<le> \<lfloor>u * (hi - lo + 1)\<rfloor>" by simp
  have "u * (hi - lo + 1) < 1 * (hi - lo + 1)"
    using assms by (intro mult_strict_right_mono) auto
  then have lt: "u * (hi - lo + 1) < hi - lo + 1" by simp
  obtain k where k: "hi - lo + 1 = of_int k" using assms
    by (metis Ints_1 Ints_add Ints_cases Ints_diff)
  have "\<lfloor>u * (hi - lo + 1)\<rfloor> < k" using lt k by (simp add: floor_less_iff)
  then have "of_int \<lfloor>u * (hi - lo + 1)\<rfloor> \<le> (of_int k :: real) - 1"
    by (metis of_int_1 of_int_diff of_int_le_iff zle_diff1_eq)
  then have "of_int \<lfloor>u * (hi - lo + 1)\<rfloor> \<le> hi - lo" using k by linarith
  then show ?thesis using f0 by (simp add: randomDelay_def)
qed

text \<open>
  C9. With \<open>noShowChance = 1\<close> the join timing is the will-not-join outcome, whatever
  \<open>lateJoinChance\<close> and the draws are; with \<open>noShowChance = 0\<close> and \<open>lateJoinChance = 0\<close> it
  is the on-time outcome with a delay between 1000 and 10000 milliseconds, for every draw.
\<close>

theorem joinTiming_cases:
  assumes "0 \<le> uNoShow" "uNoShow < 1" "0 \<le> uLate" "uLate < 1" "0 \<le> uDelay" "uDelay < 1"
  shows "(noShowChance p = Some 1 \<longrightarrow>
            calculateJoinTiming p uNoShow uLate uDelay =
              \<lparr>shouldJoin = False, delay = 0, reason = ''no-show''\<rparr>) \<and>
         (noShowChance p = Some 0 \<and> lateJoinChance p = Some 0 \<longrightarrow>
            shouldJoin (calculateJoinTiming p uNoShow uLate uDelay) \<and>
            reason (calculateJoinTiming p uNoShow uLate uDelay) = ''on-time'' \<and>
            1000 \<le> delay (calculateJoinTiming p uNoShow uLate uDelay) \<and>
            delay (calculateJoinTiming p uNoShow uLate uDelay) \<le> 10000)"
proof -
  have r: "1000 \<le> randomDelay 1000 10000 uDelay \<and> randomDelay 1000 10000 uDelay \<le> 10000"
    using randomDelay_range [of uDelay 1000 10000] assms by simp
  show ?thesis using assms r by (simp add: calculateJoinTiming_def Let_def)
qed


theorem joinTiming_cases_witness:
  "(0::real) \<le> 1/2 \<and> (1/2::real) < 1 \<and> (0::real) \<le> 1/4 \<and> (1/4::real) < 1 \<and>
   (0::real) \<le> 3/4 \<and> (3/4::real) < 1 \<and>
   noShowChance (example_profile (Some (3/4)) (Some 1)) = Some 1 \<and>
   calculateJoinTiming (example_profile (Some (3/4)) (Some 1)) (1/2) (1/4) (3/4) =
     \<lparr>shouldJoin = False, delay = 0, reason = ''no-show''\<rparr> \<and>
   noShowChance (example_profile (Some 0) (Some 0)) = Some 0 \<and>
   lateJoinChance (example_profile (Some 0) (Some 0)) = Some 0 \<and>
   shouldJoin (calculateJoinTiming (example_profile (Some 0) (Some 0)) (1/2) (1/4) (3/4)) \<and>
   reason (calculateJoinTiming (example_profile (Some 0) (Some 0)) (1/2) (1/4) (3/4)) = ''on-time'' \<and>
   1000 \<le> delay (calculateJoinTiming (example_profile (Some 0) (Some 0)) (1/2) (1/4) (3/4)) \<and>
   delay (calculateJoinTiming (example_profile (Some 0) (Some 0)) (1/2) (1/4) (3/4)) \<le> 10000"
  using joinTiming_cases [of "1/2" "1/4" "3/4" "example_profile (Some (3/4)) (Some 1)"]
    joinTiming_cases [of "1/2" "1/4" "3/4" "example_profile (Some 0) (Some 0)"]
  by (simp add: example_profile_def)

section \<open>Answer selection\<close>

lemma weightedRandom_loop_range:
  "weightedRandom_loop ws i r = Some j \<Longrightarrow> i \<le> j \<and> j < i + int (length ws)"
proof (induction ws arbitrary: i r)
  case Nil
  then show ?case by simp
next
  case (Cons w ws)
  show ?case
  proof (cases "r - w \<le> 0")
    case True
    with Cons.prems show ?thesis by simp
  next
    case False
    with Cons.prems have "weightedRandom_loop ws (i + 1) (r - w) = Some j" by simp
    from Cons.IH [OF this] show ?thesis by simp
  qed
qed

lemma weightedRandom_range:
  assumes "ws \<noteq> []"
  shows "0 \<le> weightedRandom ws u \<and> weightedRandom ws u < int (length ws)"
proof (cases "weightedRandom_loop ws 0 (u * foldl (+) 0 ws)")
  case None
  then show ?thesis using assms by (simp add: weightedRandom_def)
next
  case (Some j)
  from weightedRandom_loop_range [OF Some] Some show ?thesis
    by (simp add: weightedRandom_def)
qed

lemma floor_pick_range:
  assumes "0 \<le> u" "u < 1" "0 < n"
  shows "0 \<le> \<lfloor>u * real n\<rfloor> \<and> \<lfloor>u * real n\<rfloor> < int n"
proof -
  have "0 \<le> u * real n" using assms by simp
  then have a: "0 \<le> \<lfloor>u * real n\<rfloor>" by simp
  have "u * real n < 1 * real n" using assms by (intro mult_strict_right_mono) auto
  then have "u * real n < of_int (int n)" by simp
  then have "\<lfloor>u * real n\<rfloor> < int n" by (simp only: floor_less_iff)
  with a show ?thesis by simp
qed

lemma wrongIndices_pick:
  assumes "0 \<le> u" "u < 1" "0 \<le> c" "c < int n" "2 \<le> n"
  defines "wrong \<equiv> filter (\<lambda>i. i \<noteq> c) (map int [0..<n])"
  shows "\<exists>i. js_index wrong \<lfloor>u * real (length wrong)\<rfloor> = Some i \<and> 0 \<le> i \<and> i < int n \<and> i \<noteq> c"
proof -
  have "\<exists>x \<in> set (map int [0..<n]). x \<noteq> c"
  proof (cases "c = 0")
    case True
    have "int 1 \<in> set (map int [0..<n])" using assms(5) by (simp only: set_map) auto
    then show ?thesis using True by auto
  next
    case False
    have "int 0 \<in> set (map int [0..<n])" using assms(5) by (simp only: set_map) auto
    then show ?thesis using False by auto
  qed
  then have "set wrong \<noteq> {}" unfolding wrong_def by auto
  then have len: "0 < length wrong" by simp
  from floor_pick_range [OF assms(1,2) len]
  have k: "0 \<le> \<lfloor>u * real (length wrong)\<rfloor>" "\<lfloor>u * real (length wrong)\<rfloor> < int (length wrong)"
    by simp_all
  then have "nat \<lfloor>u * real (length wrong)\<rfloor> < length wrong" by linarith
  then have "wrong ! nat \<lfloor>u * real (length wrong)\<rfloor> \<in> set wrong" by (rule nth_mem)
  then have "wrong ! nat \<lfloor>u * real (length wrong)\<rfloor> \<in> {i. 0 \<le> i \<and> i < int n \<and> i \<noteq> c}"
    unfolding wrong_def by auto
  with k show ?thesis by (simp add: js_index_def)
qed

lemma option_weights_length: "length (option_weights options) = length options"
  by (simp add: option_weights_def)

text \<open>
  C10. For a non-empty options list, \<open>selectAnswer\<close> returns an index from 0 up to, and not
  including, the number of options, for every profile and every draw, provided that a known
  correct index lies in that range and then there are at least two options; and
  \<open>weightedRandom\<close> over the weights of the options never leaves that range.
\<close>

theorem selectAnswer_index_in_range:
  assumes "options \<noteq> []" and "0 \<le> uPick dr" and "uPick dr < 1"
    and "\<forall>c. correctIndex = Some c \<longrightarrow> 0 \<le> c \<and> c < int (length options) \<and> 2 \<le> length options"
  shows "(\<exists>i. index (fst (selectAnswer eng p options correctIndex opts dr)) = Some i \<and>
              0 \<le> i \<and> i < int (length options)) \<and>
         0 \<le> weightedRandom (option_weights options) u \<and>
         weightedRandom (option_weights options) u < int (length options)"
proof -
  have ow: "option_weights options \<noteq> []"
    using assms(1) option_weights_length [of options] by auto
  have wr: "\<And>v. 0 \<le> weightedRandom (option_weights options) v \<and>
              weightedRandom (option_weights options) v < int (length options)"
    using weightedRandom_range [OF ow] by (simp add: option_weights_length)
  obtain b eng1 where sc: "shouldAnswerCorrectly eng p opts (uJitter dr) (uRoll dr) = (b, eng1)"
    by (cases "shouldAnswerCorrectly eng p opts (uJitter dr) (uRoll dr)") 
  have "\<exists>i. index (fst (selectAnswer eng p options correctIndex opts dr)) = Some i \<and>
              0 \<le> i \<and> i < int (length options)"
  proof (cases correctIndex)
    case None
    have n: "0 < length options" using assms(1) by simp
    show ?thesis
      using None sc wr [of "uPick dr"] floor_pick_range [OF assms(2,3) n]
      by (simp add: selectAnswer_def Let_def)
  next
    case (Some c)
    with assms(4) have c: "0 \<le> c" "c < int (length options)" "2 \<le> length options" by simp_all
    from wrongIndices_pick [OF assms(2,3) c]
    show ?thesis using Some sc c by (auto simp add: selectAnswer_def Let_def)
  qed
  with wr [of u] show ?thesis by simp
qed


theorem selectAnswer_index_in_range_witness:
  "[''A'', ''B'', ''C''] \<noteq> [] \<and> 0 \<le> uPick (example_draws (2/3)) \<and> uPick (example_draws (2/3)) < 1 \<and>
   (0::int) \<le> 1 \<and> (1::int) < int (length [''A'', ''B'', ''C'']) \<and> 2 \<le> length [''A'', ''B'', ''C''] \<and>
   (\<exists>i. index (fst (selectAnswer Map.empty (example_profile None None) [''A'', ''B'', ''C'']
                      (Some 1) \<lparr>category = None, difficulty = None\<rparr> (example_draws (2/3)))) = Some i \<and>
        0 \<le> i \<and> i < int (length [''A'', ''B'', ''C''])) \<and>
   0 \<le> weightedRandom (option_weights [''A'', ''B'', ''C'']) (1/2) \<and>
   weightedRandom (option_weights [''A'', ''B'', ''C'']) (1/2) < int (length [''A'', ''B'', ''C''])"
  using selectAnswer_index_in_range [of "[''A'', ''B'', ''C'']" "example_draws (2/3)" "Some 1"
      Map.empty "example_profile None None" "\<lparr>category = None, difficulty = None\<rparr>" "1/2"]
  by (simp add: example_draws_def)


end
